theory Spec2Isabelle
  imports Main
begin

section \<open>JavaScript strings\<close>

text \<open>
  Strings are modelled as \<^typ>\<open>string\<close> and restricted to ASCII text: \<open>toLowerCase\<close> and
  \<open>toUpperCase\<close> act on the letters A-Z / a-z, \<open>trim\<close> strips the ASCII white space
  characters (tab, line feed, vertical tab, form feed, carriage return, space) and
  \<open>length\<close> counts characters.
\<close>

definition toLowerCase_char :: "char \<Rightarrow> char" where
  "toLowerCase_char c =
     (let n = (of_char c :: nat) in if 65 \<le> n \<and> n \<le> 90 then char_of (n + 32) else c)"

definition toUpperCase_char :: "char \<Rightarrow> char" where
  "toUpperCase_char c =
     (let n = (of_char c :: nat) in if 97 \<le> n \<and> n \<le> 122 then char_of (n - 32) else c)"

definition toLowerCase :: "string \<Rightarrow> string" where
  "toLowerCase s = map toLowerCase_char s"

definition toUpperCase :: "string \<Rightarrow> string" where
  "toUpperCase s = map toUpperCase_char s"

definition isWhiteSpace :: "char \<Rightarrow> bool" where
  "isWhiteSpace c = (let n = (of_char c :: nat) in (9 \<le> n \<and> n \<le> 13) \<or> n = 32)"

definition trim :: "string \<Rightarrow> string" where
  "trim s = rev (dropWhile isWhiteSpace (rev (dropWhile isWhiteSpace s)))"

definition startsWith :: "string \<Rightarrow> string \<Rightarrow> bool" where
  "startsWith s p = (take (length p) s = p)"

text \<open>\<open>str_includes s t\<close> is \<open>s.includes(t)\<close>: \<open>t\<close> occurs in \<open>s\<close> as a contiguous substring.\<close>

fun str_includes :: "string \<Rightarrow> string \<Rightarrow> bool" where
  "str_includes [] t = (t = [])"
| "str_includes (c # s) t = (startsWith (c # s) t \<or> str_includes s t)"

text \<open>Decimal rendering of a non-negative integer, as template literals print it.\<close>

definition digit_char :: "nat \<Rightarrow> char" where
  "digit_char d = char_of (48 + d)"

fun show_nat :: "nat \<Rightarrow> string" where
  "show_nat n = (if n < 10 then [digit_char n] else show_nat (n div 10) @ [digit_char (n mod 10)])"

declare show_nat.simps [simp del]

definition show_int :: "int \<Rightarrow> string" where
  "show_int n = (if n < 0 then ''-'' @ show_nat (nat (- n)) else show_nat (nat n))"

section \<open>Image synthesis client (geminiService.ts, falImageService.ts)\<close>

text \<open>
  A thrown value is either not an object (\<open>!error || typeof error !== 'object'\<close>) or an
  object, of which \<open>isQuotaExhaustedError\<close> reads the four fields of its \<open>candidate\<close>
  view. A numeric \<open>code\<close> is an integer.
\<close>

datatype code_field = CodeNum int | CodeStr string

record candidate =
  code :: "code_field option"
  status :: "string option"
  details :: "string option"
  message :: "string option"

datatype thrown = Primitive | Object candidate

text \<open>\<open>new Error(m)\<close>: an object whose only field of the four is \<open>message\<close>.\<close>

definition new_Error :: "string \<Rightarrow> thrown" where
  "new_Error m = Object \<lparr>code = None, status = None, details = None, message = Some m\<rparr>"

text \<open>
  A buffer is either raw bytes or \<open>Buffer.from(data, 'base64')\<close> of a base64 text, kept
  symbolic.
\<close>

datatype buffer = Bytes "nat list" | Base64 string

record ImageGenerationOptions =
  aspectRatio :: "string option"

definition RESOURCE_EXHAUSTED_CODE :: int where
  "RESOURCE_EXHAUSTED_CODE = 8"

definition RESOURCE_EXHAUSTED_STATUS :: string where
  "RESOURCE_EXHAUSTED_STATUS = ''RESOURCE_EXHAUSTED''"

text \<open>\<open>x ?? ''\<close> inside a template literal.\<close>

definition orEmpty :: "string option \<Rightarrow> string" where
  "orEmpty x = (case x of None \<Rightarrow> [] | Some s \<Rightarrow> s)"

definition isQuotaExhaustedError :: "thrown \<Rightarrow> bool" where
  "isQuotaExhaustedError error =
     (case error of
        Primitive \<Rightarrow> False
      | Object candidate \<Rightarrow>
          if code candidate = Some (CodeNum RESOURCE_EXHAUSTED_CODE) \<or>
             code candidate = Some (CodeStr RESOURCE_EXHAUSTED_STATUS) \<or>
             status candidate = Some RESOURCE_EXHAUSTED_STATUS
          then True
          else
            (let detailText =
                   toUpperCase (orEmpty (details candidate) @ '' '' @ orEmpty (message candidate))
             in str_includes detailText RESOURCE_EXHAUSTED_STATUS \<or> str_includes detailText ''QUOTA''))"

text \<open>
  The request handed to the Vertex model: the prompt text and, when
  \<open>buildVertexGenerationConfig\<close> yields one, the aspect ratio of the generation config.
\<close>

record vertex_request =
  text_part :: string
  generationConfig :: "string option"

definition buildVertexGenerationConfig :: "ImageGenerationOptions \<Rightarrow> string option" where
  "buildVertexGenerationConfig options =
     (case aspectRatio options of
        None \<Rightarrow> None
      | Some a \<Rightarrow> if a = [] then None else Some a)"

text \<open>
  \<open>generateContent\<close> is the external model call: it throws, or yields the base64 data of
  the first inline-data part of the first candidate, if there is one.
\<close>

definition generateWithVertex ::
  "(vertex_request \<Rightarrow> thrown + string option) \<Rightarrow> string \<Rightarrow> ImageGenerationOptions \<Rightarrow> thrown + buffer" where
  "generateWithVertex generateContent prompt options =
     (case generateContent \<lparr>text_part = prompt, generationConfig = buildVertexGenerationConfig options\<rparr> of
        Inl e \<Rightarrow> Inl e
      | Inr None \<Rightarrow> Inl (new_Error ''Gemini did not return inline image data'')
      | Inr (Some d) \<Rightarrow>
          if d = [] then Inl (new_Error ''Gemini did not return inline image data'')
          else Inr (Base64 d))"

text \<open>
  The fallback provider checks its API key on each call; the HTTP exchange with fal.ai
  (request, image download) is external and given by its result.
\<close>

definition FalImageService_generateImage ::
  "string option \<Rightarrow> (string \<Rightarrow> ImageGenerationOptions \<Rightarrow> thrown + buffer) \<Rightarrow>
     string \<Rightarrow> ImageGenerationOptions \<Rightarrow> thrown + buffer" where
  "FalImageService_generateImage falApiKey falHttp prompt options =
     (if falApiKey = None \<or> falApiKey = Some []
      then Inl (new_Error ''FAL_API_KEY must be configured to use fal.ai as a fallback provider.'')
      else falHttp prompt options)"

text \<open>The calls a request makes to its collaborators, in order.\<close>

datatype call =
    CallUploadBase
  | CallUploadReference nat
  | CallReconstruct
  | CallApplyInstructions
  | CallVertex
  | CallFallback
  | CallUploadOutput

definition resolveOptions :: "string \<Rightarrow> ImageGenerationOptions \<Rightarrow> ImageGenerationOptions" where
  "resolveOptions falAspectRatio options =
     options\<lparr>aspectRatio :=
       Some (case aspectRatio options of Some a \<Rightarrow> a | None \<Rightarrow> falAspectRatio)\<rparr>"

definition generateImage ::
  "string \<Rightarrow> (vertex_request \<Rightarrow> thrown + string option) \<Rightarrow>
     (string \<Rightarrow> ImageGenerationOptions \<Rightarrow> thrown + buffer) \<Rightarrow>
     string \<Rightarrow> ImageGenerationOptions \<Rightarrow> call list \<times> (thrown + buffer)" where
  "generateImage falAspectRatio generateContent fallbackService prompt options =
     (let resolvedOptions = resolveOptions falAspectRatio options
      in case generateWithVertex generateContent prompt resolvedOptions of
           Inr buf \<Rightarrow> ([CallVertex], Inr buf)
         | Inl error \<Rightarrow>
             if isQuotaExhaustedError error
             then ([CallVertex, CallFallback], fallbackService prompt resolvedOptions)
             else ([CallVertex], Inl error))"

section \<open>Vision / text model client (openaiService.ts)\<close>

record PromptGenerationResponse =
  prompt :: string
  isPromptGenerated :: bool

text \<open>
  The constructor: \<open>this.apiKey = apiKey || config.openai?.apiKey || ''\<close>, and a missing key
  is an error raised on construction. The result is the key the service holds.
\<close>

definition orElse :: "string \<Rightarrow> string \<Rightarrow> string" where
  "orElse s d = (if s = [] then d else s)"

definition OpenAIService_constructor :: "string option \<Rightarrow> string option \<Rightarrow> thrown + string" where
  "OpenAIService_constructor apiKey configApiKey =
     (let k = orElse (orEmpty apiKey) (orElse (orEmpty configApiKey) [])
      in if k = []
         then Inl (new_Error ''OpenAI API key is required. Set OPENAI_API_KEY environment variable.'')
         else Inr k)"

text \<open>
  The HTTP exchange of \<open>makeRequest\<close> is external. Its result is \<open>Inl m\<close> when the request
  or the reading of the reply throws (always an \<open>Error\<close>, with message \<open>m\<close>), and otherwise
  \<open>Inr\<close> of \<open>response.choices[0]?.message?.content\<close>.
\<close>

definition chatCompletions :: "string + string option \<Rightarrow> string + string" where
  "chatCompletions reply =
     (case reply of
        Inl m \<Rightarrow> Inl m
      | Inr None \<Rightarrow> Inl ''OpenAI did not return any content''
      | Inr (Some content) \<Rightarrow>
          if content = [] then Inl ''OpenAI did not return any content'' else Inr content)"

text \<open>
  \<open>content.match(/\{[\s\S]*\}/)\<close>: the match starts at the first opening brace and, being
  greedy, ends at the last closing brace after it.
\<close>

definition jsonMatch :: "string \<Rightarrow> string option" where
  "jsonMatch content =
     (let t = dropWhile (\<lambda>c. c \<noteq> CHR ''{'') content
      in if t = [] then None
         else if CHR ''}'' \<in> set (tl t)
         then Some (rev (dropWhile (\<lambda>c. c \<noteq> CHR ''}'') (rev t)))
         else None)"

text \<open>
  A value as \<open>JSON.parse\<close> produces it. Numbers are integers; \<open>JSObject\<close> stands for an
  object or an array and carries the text its conversion to a string gives.
\<close>

datatype jsval = JSNull | JSBool bool | JSNum int | JSStr string | JSObject string

definition truthy :: "jsval \<Rightarrow> bool" where
  "truthy v =
     (case v of
        JSNull \<Rightarrow> False
      | JSBool b \<Rightarrow> b
      | JSNum n \<Rightarrow> n \<noteq> 0
      | JSStr s \<Rightarrow> s \<noteq> []
      | JSObject t \<Rightarrow> True)"

text \<open>The conversion to a string that a template literal applies.\<close>

definition String_of :: "jsval \<Rightarrow> string" where
  "String_of v =
     (case v of
        JSNull \<Rightarrow> ''null''
      | JSBool b \<Rightarrow> (if b then ''true'' else ''false'')
      | JSNum n \<Rightarrow> show_int n
      | JSStr s \<Rightarrow> s
      | JSObject t \<Rightarrow> t)"

text \<open>\<open>v || d\<close> for a string literal \<open>d\<close>.\<close>

definition logicalOr :: "jsval \<Rightarrow> string \<Rightarrow> jsval" where
  "logicalOr v d = (if truthy v then v else JSStr d)"

text \<open>
  \<open>JSON.parse\<close> is a parameter: \<open>None\<close> when it throws, otherwise the two fields the code
  reads of the parsed object, each \<open>None\<close> when the object does not have it. The cast
  \<open>as Partial<PromptGenerationResponse>\<close> checks nothing: a field holds whatever value
  the reply gave it.
\<close>

record parsed_json =
  parsed_prompt :: "jsval option"
  parsed_isPromptGenerated :: "jsval option"

text \<open>
  What \<open>chatCompletionsJSON\<close> returns at run time. It is declared a
  \<open>PromptGenerationResponse\<close>, and is one when the reply has the expected structure; when
  it has not, the two fields are passed on as they were parsed.
\<close>

record JsonModeResponse =
  response_prompt :: jsval
  response_isPromptGenerated :: jsval

definition chatCompletionsJSON ::
  "(string \<Rightarrow> parsed_json option) \<Rightarrow> string + string option \<Rightarrow> string + JsonModeResponse" where
  "chatCompletionsJSON JSON_parse reply =
     (case chatCompletions reply of
        Inl m \<Rightarrow> Inl m
      | Inr content \<Rightarrow>
          (case jsonMatch content of
             None \<Rightarrow> Inr \<lparr>response_prompt = JSStr content, response_isPromptGenerated = JSBool False\<rparr>
           | Some block \<Rightarrow>
               (case JSON_parse block of
                  Some parsed \<Rightarrow>
                    (case (parsed_prompt parsed, parsed_isPromptGenerated parsed) of
                       (Some (JSStr p), Some (JSBool g)) \<Rightarrow>
                         Inr \<lparr>response_prompt = JSStr (trim p), response_isPromptGenerated = JSBool g\<rparr>
                     | (pp, pg) \<Rightarrow>
                         Inr \<lparr>response_prompt =
                                (case pp of None \<Rightarrow> JSStr content | Some v \<Rightarrow> logicalOr v content),
                              response_isPromptGenerated =
                                (case pg of
                                   None \<Rightarrow> JSBool False
                                 | Some JSNull \<Rightarrow> JSBool False
                                 | Some v \<Rightarrow> v)\<rparr>)
                | None \<Rightarrow>
                    (let isRefusal =
                           (str_includes (toLowerCase content) ''i'm sorry'' \<or>
                            str_includes (toLowerCase content) ''i can't assist'' \<or>
                            str_includes (toLowerCase content) ''cannot'' \<or>
                            str_includes (toLowerCase content) ''unable to'')
                     in Inr \<lparr>response_prompt = JSStr content,
                             response_isPromptGenerated = JSBool (\<not> isRefusal)\<rparr>))))"

text \<open>
  The two operations of the service. The exchange with the chat-completions endpoint is a
  function of what the operation sends: the image and its MIME type for the reconstruction;
  the base prompt, the instructions and the reference images for the edit.
\<close>

definition reconstructPromptFromImage ::
  "(buffer \<Rightarrow> string \<Rightarrow> string + string option) \<Rightarrow> buffer \<Rightarrow> string \<Rightarrow>
     string + PromptGenerationResponse" where
  "reconstructPromptFromImage makeRequest imageBuffer mimeType =
     (case chatCompletions (makeRequest imageBuffer mimeType) of
        Inl m \<Rightarrow> Inl m
      | Inr content \<Rightarrow>
          (let isRefusal =
                 (str_includes (toLowerCase content) ''i'm sorry'' \<or>
                  str_includes (toLowerCase content) ''i can't assist'' \<or>
                  str_includes (toLowerCase content) ''can't help'' \<or>
                  str_includes (toLowerCase content) ''cannot'' \<or>
                  str_includes (toLowerCase content) ''unable to'')
           in Inr \<lparr>prompt = content, isPromptGenerated = \<not> isRefusal\<rparr>))"

definition applyUserInstructions ::
  "(string \<Rightarrow> string \<Rightarrow> (buffer \<times> string) list option \<Rightarrow> string + string option) \<Rightarrow>
     (string \<Rightarrow> parsed_json option) \<Rightarrow>
     string \<Rightarrow> string \<Rightarrow> (buffer \<times> string) list option \<Rightarrow> string + JsonModeResponse" where
  "applyUserInstructions makeRequest JSON_parse basePrompt userInstructions referenceImageBuffers =
     chatCompletionsJSON JSON_parse (makeRequest basePrompt userInstructions referenceImageBuffers)"

section \<open>Error middleware (errorHandler.ts)\<close>

text \<open>
  JSON values of response bodies: null, booleans, integers, strings, arrays of strings,
  an object or array known by its text, and the issue list of a \<open>ZodError\<close>.
\<close>

datatype json =
    JNull
  | JBool bool
  | JNumber int
  | JString string
  | JStrings "string list"
  | JObject string
  | JIssues

definition json_of :: "jsval \<Rightarrow> json" where
  "json_of v =
     (case v of
        JSNull \<Rightarrow> JNull
      | JSBool b \<Rightarrow> JBool b
      | JSNum n \<Rightarrow> JNumber n
      | JSStr s \<Rightarrow> JString s
      | JSObject t \<Rightarrow> JObject t)"

record http_response =
  statusCode :: nat
  body :: "(string \<times> json) list"

text \<open>
  What a handler can throw: a \<open>ZodError\<close>, an \<open>HttpError\<close> (status and message; no call
  site passes \<open>details\<close>, so that field is \<open>undefined\<close> and absent from the JSON body), or
  anything else.
\<close>

datatype exn = ZodError | HttpError nat string | Thrown thrown

definition errorHandler :: "exn \<Rightarrow> http_response" where
  "errorHandler err =
     (case err of
        ZodError \<Rightarrow>
          \<lparr>statusCode = 400, body = [(''message'', JString ''Invalid payload''), (''issues'', JIssues)]\<rparr>
      | HttpError st m \<Rightarrow> \<lparr>statusCode = st, body = [(''message'', JString m)]\<rparr>
      | Thrown t \<Rightarrow>
          \<lparr>statusCode = 500, body = [(''message'', JString ''Unexpected error occurred'')]\<rparr>)"

text \<open>
  Modelled from the spec: \<open>asyncHandler\<close> (middlewares/asyncHandler) is not among the source
  files. The spec surfaces thrown validation errors as 400 and storage failures as 500,
  the statuses \<open>errorHandler\<close> assigns, so a handler that throws is answered by
  \<open>errorHandler\<close>, and a handler that responds is left alone.
\<close>

datatype 'r outcome = Responded 'r | Threw exn

definition asyncHandler :: "http_response outcome \<Rightarrow> http_response" where
  "asyncHandler out = (case out of Responded r \<Rightarrow> r | Threw e \<Rightarrow> errorHandler e)"

section \<open>Configuration (config.ts, constants/aspectRatio.ts)\<close>

definition ASPECT_RATIO_OPTIONS :: "string list" where
  "ASPECT_RATIO_OPTIONS =
     [''21:9'', ''16:9'', ''3:2'', ''4:3'', ''5:4'', ''1:1'', ''4:5'', ''3:4'', ''2:3'', ''9:16'']"

definition DEFAULT_ASPECT_RATIO :: string where
  "DEFAULT_ASPECT_RATIO = ''1:1''"

definition ensureValidAspectRatio :: "string option \<Rightarrow> string" where
  "ensureValidAspectRatio v =
     (case v of
        None \<Rightarrow> DEFAULT_ASPECT_RATIO
      | Some a \<Rightarrow> if a \<noteq> [] \<and> a \<in> set ASPECT_RATIO_OPTIONS then a else DEFAULT_ASPECT_RATIO)"

text \<open>
  The configuration object, without \<open>port\<close>, the two system prompts and
  \<open>maxReferenceImages\<close>: these are read with defaults, never through \<open>required\<close>, and
  cannot make the loading fail.
\<close>

record config =
  openai_apiKey :: "string option"
  storage_accessKeyId :: string
  storage_secretAccessKey :: string
  storage_bucket :: string
  storage_endpoint :: string
  storage_folder :: string
  storage_publicBaseUrl :: string
  google_projectId :: string
  google_location :: string
  google_credentialsPath :: "string option"
  fal_apiKey :: "string option"
  fal_endpoint :: string
  fal_modelId :: string
  fal_aspectRatio :: string
  image_outputFormat :: string

text \<open>\<open>a ?? b\<close> on an optional string.\<close>

definition nullish :: "string option \<Rightarrow> string \<Rightarrow> string" where
  "nullish a b = (case a of None \<Rightarrow> b | Some v \<Rightarrow> v)"

definition required :: "(string \<Rightarrow> string option) \<Rightarrow> string \<Rightarrow> string option \<Rightarrow> thrown + string" where
  "required env name fallback =
     (case (case env name of Some v \<Rightarrow> Some v | None \<Rightarrow> fallback) of
        None \<Rightarrow> Inl (new_Error (''Missing required environment variable '' @ name))
      | Some v \<Rightarrow>
          if v = [] then Inl (new_Error (''Missing required environment variable '' @ name))
          else Inr v)"

text \<open>
  The file system as the loader sees it: \<open>fs_absolute\<close> makes a path absolute
  (\<open>path.isAbsolute\<close>, \<open>path.join(process.cwd(), _)\<close>), \<open>fs_existsSync\<close> tests it.
\<close>

record filesystem =
  fs_absolute :: "string \<Rightarrow> string"
  fs_existsSync :: "string \<Rightarrow> bool"

definition resolveCredentialPath :: "filesystem \<Rightarrow> string option \<Rightarrow> thrown + string option" where
  "resolveCredentialPath fs filePath =
     (case filePath of
        None \<Rightarrow> Inr None
      | Some f \<Rightarrow>
          if f = [] then Inr None
          else
            (let absolutePath = fs_absolute fs f
             in if \<not> fs_existsSync fs absolutePath
                then Inl (new_Error (''Google credential file not found at '' @ absolutePath @
                                     ''. Update GOOGLE_APPLICATION_CREDENTIALS.''))
                else Inr (Some absolutePath)))"

definition bindE :: "'e + 'a \<Rightarrow> ('a \<Rightarrow> 'e + 'b) \<Rightarrow> 'e + 'b" where
  "bindE m f = (case m of Inl e \<Rightarrow> Inl e | Inr x \<Rightarrow> f x)"

definition FAL_DEFAULT_ENDPOINT :: string where
  "FAL_DEFAULT_ENDPOINT = ''https://fal.run/fal-ai/gemini-25-flash-image''"

definition FAL_DEFAULT_MODEL_ID :: string where
  "FAL_DEFAULT_MODEL_ID = ''fal-ai/gemini-25-flash-image''"

text \<open>
  Evaluating the module \<open>config.ts\<close>: the object literal is built field by field, and the
  first \<open>required\<close> or \<open>resolveCredentialPath\<close> that throws aborts the start of the process.
\<close>

definition loadConfig :: "(string \<Rightarrow> string option) \<Rightarrow> filesystem \<Rightarrow> thrown + config" where
  "loadConfig env fs =
     bindE (required env ''S3_ACCESS_KEY'' None) (\<lambda>accessKeyId.
     bindE (required env ''S3_SECRET_KEY'' None) (\<lambda>secretAccessKey.
     bindE (required env ''S3_BUCKET_NAME'' None) (\<lambda>bucket.
     bindE (required env ''S3_ENDPOINT_URL'' None) (\<lambda>endpoint.
     bindE (required env ''S3_PUBLIC_LINK'' None) (\<lambda>publicBaseUrl.
     bindE (required env ''GOOGLE_VERTEX_PROJECT_ID'' (Some ''nano-banana-472210'')) (\<lambda>projectId.
     bindE (required env ''GOOGLE_VERTEX_LOCATION'' (Some ''us-central1'')) (\<lambda>location.
     bindE (resolveCredentialPath fs (env ''GOOGLE_APPLICATION_CREDENTIALS'')) (\<lambda>credentialsPath.
       Inr \<lparr>openai_apiKey = env ''OPENAI_API_KEY'',
            storage_accessKeyId = accessKeyId,
            storage_secretAccessKey = secretAccessKey,
            storage_bucket = bucket,
            storage_endpoint = endpoint,
            storage_folder = nullish (env ''S3_FOLDER'') ''internaluse'',
            storage_publicBaseUrl = publicBaseUrl,
            google_projectId = projectId,
            google_location = location,
            google_credentialsPath = credentialsPath,
            fal_apiKey = env ''FAL_API_KEY'',
            fal_endpoint = nullish (env ''FAL_GEMINI_ENDPOINT'') FAL_DEFAULT_ENDPOINT,
            fal_modelId = nullish (env ''FAL_GEMINI_MODEL_ID'') FAL_DEFAULT_MODEL_ID,
            fal_aspectRatio = ensureValidAspectRatio (env ''FAL_GEMINI_ASPECT_RATIO''),
            image_outputFormat = nullish (env ''IMAGE_OUTPUT_FORMAT'') ''png''\<rparr>))))))))"

text \<open>
  The start of the process (index.ts): the configuration is loaded when the modules are
  imported; only then does the server listen. No \<open>OpenAIService\<close> is constructed here.
\<close>

datatype process_state = StartupFailed thrown | Listening config

definition startup :: "(string \<Rightarrow> string option) \<Rightarrow> filesystem \<Rightarrow> process_state" where
  "startup env fs = (case loadConfig env fs of Inl e \<Rightarrow> StartupFailed e | Inr cfg \<Rightarrow> Listening cfg)"

definition createOpenAIService :: "config \<Rightarrow> thrown + string" where
  "createOpenAIService cfg = OpenAIService_constructor None (openai_apiKey cfg)"

section \<open>Request validator (routes/imageFlow.ts)\<close>

record multer_file =
  mimetype :: string
  file_size :: nat
  file_buffer :: buffer

definition MAX_PAYLOAD_SIZE :: nat where
  "MAX_PAYLOAD_SIZE = 50 * 1024 * 1024"

definition SUPPORTED_MIME_TYPES :: "string list" where
  "SUPPORTED_MIME_TYPES = [''image/png'', ''image/jpeg'', ''image/jpg'', ''image/webp'', ''image/gif'']"

text \<open>
  \<open>(n / 1024 / 1024).toFixed(2)\<close> for a byte count \<open>n\<close>. Dividing an integer below \<open>2^53\<close>
  by a power of two is exact in binary floating point, and \<open>toFixed\<close> rounds the exact
  value to the nearest hundredth, the larger one on a tie; so the digits are those of
  \<open>\<lfloor>100 n / 2^20 + 1/2\<rfloor>\<close>.
\<close>

definition megabytes_toFixed2 :: "nat \<Rightarrow> string" where
  "megabytes_toFixed2 n =
     (let h = (200 * n + 1048576) div 2097152
      in show_nat (h div 100) @ ''.'' @ [digit_char (h mod 100 div 10), digit_char (h mod 10)])"

definition validateImage :: "multer_file \<Rightarrow> string \<Rightarrow> exn + unit" where
  "validateImage file ctx =
     (if mimetype file \<notin> set SUPPORTED_MIME_TYPES
      then Inl (HttpError 400
             (ctx @ '': Unsupported image format. Supported: PNG, JPEG, WEBP, GIF. Received: '' @
              mimetype file))
      else if file_size file > MAX_PAYLOAD_SIZE
      then Inl (HttpError 400
             (ctx @ '': Image size ('' @ megabytes_toFixed2 (file_size file) @
              '' MB) exceeds 50 MB limit.''))
      else Inr ())"

definition validateTotalPayloadSize :: "multer_file \<Rightarrow> multer_file list \<Rightarrow> exn + unit" where
  "validateTotalPayloadSize baseImage referenceImages =
     (let totalSize = file_size baseImage + foldl (\<lambda>sum img. sum + file_size img) 0 referenceImages
      in if totalSize > MAX_PAYLOAD_SIZE
         then Inl (HttpError 400
                (''Total image payload size ('' @ megabytes_toFixed2 totalSize @
                 '' MB) exceeds 50 MB limit per request.''))
         else Inr ())"

text \<open>\<open>referenceImages.forEach((img, index) => validateImage(img, ...))\<close>, from \<open>index\<close> on.\<close>

fun validateReferences :: "multer_file list \<Rightarrow> nat \<Rightarrow> exn + unit" where
  "validateReferences [] index = Inr ()"
| "validateReferences (img # rest) index =
     (case validateImage img (''Reference image '' @ show_nat (index + 1)) of
        Inl e \<Rightarrow> Inl e
      | Inr u \<Rightarrow> validateReferences rest (index + 1))"

text \<open>
  A text field of the multipart body as the parser delivers it: absent, one string, or an
  array when the field is repeated.
\<close>

datatype form_field = Missing | Single string | Multiple "string list"

record ImageFlowPayload =
  payload_userPrompt :: "string option"
  payload_aspectRatio :: "string option"

definition imageFlowSchema_parse :: "form_field \<Rightarrow> form_field \<Rightarrow> exn + ImageFlowPayload" where
  "imageFlowSchema_parse userPromptField aspectRatioField =
     (case userPromptField of
        Multiple xs \<Rightarrow> Inl ZodError
      | Missing \<Rightarrow>
          (case aspectRatioField of
             Missing \<Rightarrow> Inr \<lparr>payload_userPrompt = None, payload_aspectRatio = None\<rparr>
           | Single a \<Rightarrow>
               if a \<in> set ASPECT_RATIO_OPTIONS
               then Inr \<lparr>payload_userPrompt = None, payload_aspectRatio = Some a\<rparr>
               else Inl ZodError
           | Multiple ys \<Rightarrow> Inl ZodError)
      | Single u \<Rightarrow>
          (case aspectRatioField of
             Missing \<Rightarrow> Inr \<lparr>payload_userPrompt = Some u, payload_aspectRatio = None\<rparr>
           | Single a \<Rightarrow>
               if a \<in> set ASPECT_RATIO_OPTIONS
               then Inr \<lparr>payload_userPrompt = Some u, payload_aspectRatio = Some a\<rparr>
               else Inl ZodError
           | Multiple ys \<Rightarrow> Inl ZodError))"

text \<open>
  The request as the multipart parser hands it to the handler: the files of the two file
  fields and the two text fields. The parser and its own limits are outside the model.
\<close>

record request =
  files_baseImage :: "multer_file list"
  files_referenceImages :: "multer_file list"
  body_userPrompt :: form_field
  body_aspectRatio :: form_field

definition validateRequest :: "request \<Rightarrow> exn + (multer_file \<times> multer_file list \<times> ImageFlowPayload)" where
  "validateRequest req =
     (case files_baseImage req of
        [] \<Rightarrow> Inl (HttpError 400 ''baseImage file is required'')
      | baseImage # others \<Rightarrow>
          (let referenceImages = files_referenceImages req
           in bindE (validateImage baseImage ''Base image'') (\<lambda>u1.
              bindE (validateReferences referenceImages 0) (\<lambda>u2.
              bindE (validateTotalPayloadSize baseImage referenceImages) (\<lambda>u3.
              bindE (imageFlowSchema_parse (body_userPrompt req) (body_aspectRatio req)) (\<lambda>payload.
                Inr (baseImage, referenceImages, payload)))))))"

section \<open>Pipeline orchestrator (routes/imageFlow.ts)\<close>

record upload_result =
  upload_key :: string
  upload_url :: string

text \<open>
  The collaborators of one request. \<open>storage_uploadBuffer\<close> is the storage service's
  \<open>uploadBuffer\<close> by call number (0 the base image, \<open>i + 1\<close> reference \<open>i\<close>, then the
  output); \<open>openai_reconstruct\<close> and \<open>openai_edit\<close> are the chat-completions exchanges of
  the two stages; \<open>JSON_parse\<close>, \<open>vertex_generateContent\<close> and \<open>fal_http\<close> are as above.
\<close>

record world =
  storage_uploadBuffer :: "nat \<Rightarrow> thrown + upload_result"
  openai_reconstruct :: "buffer \<Rightarrow> string \<Rightarrow> string + string option"
  openai_edit :: "string \<Rightarrow> string \<Rightarrow> (buffer \<times> string) list option \<Rightarrow> string + string option"
  JSON_parse :: "string \<Rightarrow> parsed_json option"
  vertex_generateContent :: "vertex_request \<Rightarrow> thrown + string option"
  fal_http :: "string \<Rightarrow> ImageGenerationOptions \<Rightarrow> thrown + buffer"

text \<open>
  \<open>Promise.all\<close>: every call has been started; the result is all the values, or a
  rejection (here the one of lowest index).
\<close>

fun Promise_all :: "('e + 'a) list \<Rightarrow> 'e + 'a list" where
  "Promise_all [] = Inr []"
| "Promise_all (r # rs) =
     (case r of
        Inl e \<Rightarrow> Inl e
      | Inr x \<Rightarrow> (case Promise_all rs of Inl e \<Rightarrow> Inl e | Inr xs \<Rightarrow> Inr (x # xs)))"

definition uploadInputs ::
  "world \<Rightarrow> multer_file \<Rightarrow> multer_file list \<Rightarrow>
     call list \<times> (thrown + upload_result \<times> upload_result list)" where
  "uploadInputs w baseImage referenceImages =
     (case storage_uploadBuffer w 0 of
        Inl t \<Rightarrow> ([CallUploadBase], Inl t)
      | Inr baseImageUpload \<Rightarrow>
          (CallUploadBase # map CallUploadReference [0..<length referenceImages],
           case Promise_all (map (\<lambda>i. storage_uploadBuffer w (Suc i)) [0..<length referenceImages]) of
             Inl t \<Rightarrow> Inl t
           | Inr referenceUploads \<Rightarrow> Inr (baseImageUpload, referenceUploads)))"

text \<open>The body of every \<open>res.status(502).json({...})\<close> of the handler.\<close>

definition shortCircuit ::
  "upload_result \<Rightarrow> upload_result list \<Rightarrow> json \<Rightarrow> json \<Rightarrow> string \<Rightarrow> http_response" where
  "shortCircuit baseImageUpload referenceUploads p1 p2 err =
     \<lparr>statusCode = 502,
      body = [(''baseImage'', JString (upload_url baseImageUpload)),
              (''referenceImages'', JStrings (map upload_url referenceUploads)),
              (''prompt1'', p1),
              (''prompt2'', p2),
              (''outputImage'', JNull),
              (''error'', JString err),
              (''isPromptGenerated'', JBool False)]\<rparr>"

definition step1 ::
  "world \<Rightarrow> multer_file \<Rightarrow> upload_result \<Rightarrow> upload_result list \<Rightarrow> http_response + string" where
  "step1 w baseImage baseImageUpload referenceUploads =
     (case reconstructPromptFromImage (openai_reconstruct w) (file_buffer baseImage) (mimetype baseImage) of
        Inl m \<Rightarrow>
          Inl (shortCircuit baseImageUpload referenceUploads JNull JNull
                 (''OpenAI prompt reconstruction failed: '' @ m))
      | Inr promptResponse1 \<Rightarrow>
          if \<not> isPromptGenerated promptResponse1
          then Inl (shortCircuit baseImageUpload referenceUploads
                      (JString (orElse (prompt promptResponse1) ''Prompt reconstruction failed''))
                      JNull
                      (''OpenAI could not reconstruct the prompt: '' @
                       orElse (prompt promptResponse1)
                         ''Request was refused. Please try with a different image.''))
          else
            (let trimmedPrompt1 = trim (prompt promptResponse1)
             in if trimmedPrompt1 = [] \<or> length trimmedPrompt1 < 3
                then Inl (shortCircuit baseImageUpload referenceUploads
                            (JString (orElse trimmedPrompt1 ''Invalid prompt''))
                            JNull
                            ''OpenAI did not return a valid reconstructed prompt. Please try again with a different image.'')
                else Inr trimmedPrompt1))"

text \<open>
  \<open>promptResponse.prompt.trim()\<close>: the trimmed text of a string; on any other value the
  call throws a \<open>TypeError\<close>, given by its message.
\<close>

definition prompt_trim :: "jsval \<Rightarrow> string + string" where
  "prompt_trim v =
     (case v of
        JSStr s \<Rightarrow> Inr (trim s)
      | JSNull \<Rightarrow> Inl ''Cannot read properties of null (reading 'trim')''
      | JSBool b \<Rightarrow> Inl ''promptResponse.prompt.trim is not a function''
      | JSNum n \<Rightarrow> Inl ''promptResponse.prompt.trim is not a function''
      | JSObject t \<Rightarrow> Inl ''promptResponse.prompt.trim is not a function'')"

definition step2 ::
  "world \<Rightarrow> ImageFlowPayload \<Rightarrow> multer_file list \<Rightarrow> upload_result \<Rightarrow> upload_result list \<Rightarrow>
     string \<Rightarrow> call list \<times> (http_response + string \<times> bool)" where
  "step2 w payload referenceImages baseImageUpload referenceUploads prompt1 =
     (let userPrompt =
            orElse (case payload_userPrompt payload of None \<Rightarrow> [] | Some u \<Rightarrow> trim u) [];
          hasUserInstructions = (length userPrompt > 0)
      in if \<not> hasUserInstructions then ([], Inr (prompt1, False))
         else
           (let referenceImageBuffers =
                  (if length referenceImages > 0
                   then Some (map (\<lambda>img. (file_buffer img, mimetype img)) referenceImages)
                   else None)
            in ([CallApplyInstructions],
                case applyUserInstructions (openai_edit w) (JSON_parse w)
                       prompt1 userPrompt referenceImageBuffers of
                  Inl m \<Rightarrow>
                    Inl (shortCircuit baseImageUpload referenceUploads (JString prompt1) JNull
                           (''OpenAI prompt editing failed: '' @ m))
                | Inr promptResponse \<Rightarrow>
                    if \<not> truthy (response_isPromptGenerated promptResponse)
                    then Inl (shortCircuit baseImageUpload referenceUploads (JString prompt1)
                                (json_of (logicalOr (response_prompt promptResponse)
                                            ''Prompt generation failed''))
                                (''OpenAI could not generate the prompt: '' @
                                 String_of (logicalOr (response_prompt promptResponse)
                                   ''Request was refused. Please try different instructions.'')))
                    else
                      (case prompt_trim (response_prompt promptResponse) of
                         Inl m \<Rightarrow>
                           Inl (shortCircuit baseImageUpload referenceUploads (JString prompt1) JNull
                                  (''OpenAI prompt editing failed: '' @ m))
                       | Inr trimmedPrompt2 \<Rightarrow>
                           if trimmedPrompt2 = [] \<or> length trimmedPrompt2 < 3
                           then Inl (shortCircuit baseImageUpload referenceUploads (JString prompt1)
                                       (JString (orElse trimmedPrompt2 ''Invalid prompt''))
                                       ''OpenAI did not return a valid updated prompt. Please try again.'')
                           else Inr (trimmedPrompt2, True)))))"

text \<open>
  The exported singleton \<open>geminiService\<close>: the Vertex model and the fal.ai service of this
  process.
\<close>

definition geminiService_generateImage ::
  "config \<Rightarrow> world \<Rightarrow> string \<Rightarrow> ImageGenerationOptions \<Rightarrow> call list \<times> (thrown + buffer)" where
  "geminiService_generateImage cfg w =
     generateImage (fal_aspectRatio cfg) (vertex_generateContent w)
       (FalImageService_generateImage (fal_apiKey cfg) (fal_http w))"

text \<open>Stage 3 and the upload of its output; \<open>n\<close> is the number of reference images.\<close>

definition step3 ::
  "config \<Rightarrow> world \<Rightarrow> ImageFlowPayload \<Rightarrow> nat \<Rightarrow> string \<Rightarrow> call list \<times> (thrown + upload_result)" where
  "step3 cfg w payload n prompt2 =
     (case geminiService_generateImage cfg w prompt2
             \<lparr>aspectRatio = payload_aspectRatio payload\<rparr> of
        (cs, Inl t) \<Rightarrow> (cs, Inl t)
      | (cs, Inr generatedImageBuffer) \<Rightarrow> (cs @ [CallUploadOutput], storage_uploadBuffer w (Suc n)))"

definition successResponse ::
  "upload_result \<Rightarrow> upload_result list \<Rightarrow> string \<Rightarrow> string \<Rightarrow> upload_result \<Rightarrow> bool \<Rightarrow> http_response" where
  "successResponse baseImageUpload referenceUploads prompt1 prompt2 outputUpload step2Executed =
     \<lparr>statusCode = 200,
      body = [(''baseImage'', JString (upload_url baseImageUpload)),
              (''baseImageKey'', JString (upload_key baseImageUpload)),
              (''referenceImages'', JStrings (map upload_url referenceUploads)),
              (''referenceImageKeys'', JStrings (map upload_key referenceUploads)),
              (''prompt1'', JString prompt1),
              (''prompt2'', JString prompt2),
              (''outputImage'', JString (upload_url outputUpload)),
              (''outputImageKey'', JString (upload_key outputUpload)),
              (''isPromptGenerated'', JBool True),
              (''step2Executed'', JBool step2Executed)]\<rparr>"

text \<open>Stages 2 and 3, from the \<open>prompt1\<close> that Stage 1 produced.\<close>

definition continueFromStep2 ::
  "config \<Rightarrow> world \<Rightarrow> multer_file list \<Rightarrow> ImageFlowPayload \<Rightarrow>
     upload_result \<Rightarrow> upload_result list \<Rightarrow> string \<Rightarrow> call list \<times> http_response outcome" where
  "continueFromStep2 cfg w referenceImages payload baseImageUpload referenceUploads prompt1 =
     (case step2 w payload referenceImages baseImageUpload referenceUploads prompt1 of
        (cs2, Inl r) \<Rightarrow> (cs2, Responded r)
      | (cs2, Inr (prompt2, step2Executed)) \<Rightarrow>
          (case step3 cfg w payload (length referenceImages) prompt2 of
             (cs3, Inl t) \<Rightarrow> (cs2 @ cs3, Threw (Thrown t))
           | (cs3, Inr outputUpload) \<Rightarrow>
               (cs2 @ cs3,
                Responded (successResponse baseImageUpload referenceUploads prompt1 prompt2
                             outputUpload step2Executed))))"

text \<open>Stages 1 to 3, once the inputs are uploaded and the OpenAI service exists.\<close>

definition pipeline ::
  "config \<Rightarrow> world \<Rightarrow> multer_file \<Rightarrow> multer_file list \<Rightarrow> ImageFlowPayload \<Rightarrow>
     upload_result \<Rightarrow> upload_result list \<Rightarrow> call list \<times> http_response outcome" where
  "pipeline cfg w baseImage referenceImages payload baseImageUpload referenceUploads =
     (case step1 w baseImage baseImageUpload referenceUploads of
        Inl r \<Rightarrow> ([CallReconstruct], Responded r)
      | Inr prompt1 \<Rightarrow>
          (case continueFromStep2 cfg w referenceImages payload
                  baseImageUpload referenceUploads prompt1 of
             (cs, out) \<Rightarrow> (CallReconstruct # cs, out)))"

text \<open>The handler of \<open>POST /api/image-flow\<close>: the calls it makes, and how it ends.\<close>

definition imageFlow_handler :: "config \<Rightarrow> world \<Rightarrow> request \<Rightarrow> call list \<times> http_response outcome" where
  "imageFlow_handler cfg w req =
     (case validateRequest req of
        Inl e \<Rightarrow> ([], Threw e)
      | Inr (baseImage, referenceImages, payload) \<Rightarrow>
          (case uploadInputs w baseImage referenceImages of
             (cs, Inl t) \<Rightarrow> (cs, Threw (Thrown t))
           | (cs, Inr (baseImageUpload, referenceUploads)) \<Rightarrow>
               (case createOpenAIService cfg of
                  Inl t \<Rightarrow> (cs, Threw (Thrown t))
                | Inr openaiService \<Rightarrow>
                    (case pipeline cfg w baseImage referenceImages payload
                            baseImageUpload referenceUploads of
                       (cs', out) \<Rightarrow> (cs @ cs', out)))))"

text \<open>
  The handler under \<open>asyncHandler\<close>, then the error middleware: the answer to a request
  that the multipart middleware has handed to the handler.
\<close>

definition imageFlowRouter :: "config \<Rightarrow> world \<Rightarrow> request \<Rightarrow> http_response" where
  "imageFlowRouter cfg w req = asyncHandler (snd (imageFlow_handler cfg w req))"

text \<open>
  The multipart middleware mounted before the handler: \<open>multer\<close> with the options of the
  route, that is at most one \<open>baseImage\<close> file and \<open>maxReferenceImages\<close>
  \<open>referenceImages\<close> files (hence at most \<open>limits.files = 1 + maxReferenceImages\<close> files),
  the \<open>fileFilter\<close> on the MIME type, and \<open>limits.fileSize = MAX_PAYLOAD_SIZE\<close>. A request that breaks one of them never
  reaches the handler; the middleware passes an error, a \<open>MulterError\<close> or the \<open>Error\<close>
  of the \<open>fileFilter\<close>, to the error middleware. Which error comes first when several
  apply depends on the order of the parts, and the error middleware answers all of them
  alike. Whether a file of exactly \<open>fileSize\<close> bytes is too large depends on the version
  of the parser and is the parameter \<open>atLimit\<close>; \<open>maxReferenceImages\<close> is
  \<open>config.image.maxReferenceImages\<close>.
\<close>

definition MulterError :: "string \<Rightarrow> string \<Rightarrow> thrown" where
  "MulterError c m = Object \<lparr>code = Some (CodeStr c), status = None, details = None, message = Some m\<rparr>"

definition upload_fields :: "bool \<Rightarrow> nat \<Rightarrow> request \<Rightarrow> exn + request" where
  "upload_fields atLimit maxReferenceImages req =
     (let files = files_baseImage req @ files_referenceImages req
      in if length (files_baseImage req) > 1 \<or>
            length (files_referenceImages req) > maxReferenceImages
         then Inl (Thrown (MulterError ''LIMIT_UNEXPECTED_FILE'' ''Unexpected field''))
         else
           (case find (\<lambda>file. mimetype file \<notin> set SUPPORTED_MIME_TYPES) files of
              Some file \<Rightarrow>
                Inl (Thrown (new_Error
                  (''Unsupported file type: '' @ mimetype file @
                   ''. Supported formats: PNG, JPEG, WEBP, and non-animated GIF.'')))
            | None \<Rightarrow>
                if list_ex (\<lambda>file. file_size file > MAX_PAYLOAD_SIZE \<or>
                                  (atLimit \<and> file_size file = MAX_PAYLOAD_SIZE)) files
                then Inl (Thrown (MulterError ''LIMIT_FILE_SIZE'' ''File too large''))
                else Inr req))"

text \<open>The route \<open>POST /api/image-flow\<close> as mounted: the multipart middleware, then the handler.\<close>

definition imageFlow_route :: "bool \<Rightarrow> nat \<Rightarrow> config \<Rightarrow> world \<Rightarrow> request \<Rightarrow> http_response" where
  "imageFlow_route atLimit maxReferenceImages cfg w req =
     (case upload_fields atLimit maxReferenceImages req of
        Inl e \<Rightarrow> errorHandler e
      | Inr accepted \<Rightarrow> imageFlowRouter cfg w accepted)"

section \<open>Proxy gateway (routes/imageProxy.ts)\<close>

text \<open>
  The \<open>Logger\<close> class (utils/logger.ts) has the methods \<open>info\<close> and \<open>error\<close>. Calling
  one of them has no effect on the result, and such calls are left out of the model;
  calling any other method throws a \<open>TypeError\<close>.
\<close>

definition Logger_methods :: "string list" where
  "Logger_methods = [''info'', ''error'']"

definition logger_call :: "string \<Rightarrow> thrown + unit" where
  "logger_call method =
     (if method \<in> set Logger_methods then Inr ()
      else Inl (new_Error (''logger.'' @ method @ '' is not a function'')))"

text \<open>
  \<open>new URL(key, base).toString()\<close> is a parameter \<open>URL_resolve\<close>; it throws on an invalid URL.
  The query parameters are optional strings, as the handler casts them. In the \<open>url\<close>
  branch the handler calls \<open>logger.warn\<close> before it throws the 403 error.
\<close>

definition imageProxy_finalUrl ::
  "(string \<Rightarrow> string \<Rightarrow> thrown + string) \<Rightarrow> string \<Rightarrow> string option \<Rightarrow> string option \<Rightarrow> exn + string" where
  "imageProxy_finalUrl URL_resolve publicBaseUrl imageUrl imageKey =
     (if imageKey \<noteq> None \<and> imageKey \<noteq> Some []
      then (case URL_resolve (the imageKey) publicBaseUrl of
              Inl t \<Rightarrow> Inl (Thrown t)
            | Inr finalUrl \<Rightarrow> Inr finalUrl)
      else if imageUrl \<noteq> None \<and> imageUrl \<noteq> Some []
      then (let storageBaseUrl = publicBaseUrl
            in if storageBaseUrl \<noteq> [] \<and> \<not> startsWith (the imageUrl) storageBaseUrl
               then (case logger_call ''warn'' of
                       Inl t \<Rightarrow> Inl (Thrown t)
                     | Inr u \<Rightarrow>
                         Inl (HttpError 403 ''Only images from configured storage are allowed''))
               else Inr (the imageUrl))
      else Inl (HttpError 400 ''Missing required query parameter: url or key''))"

text \<open>
  The upstream fetch: it throws (\<open>Some m\<close> an \<open>Error\<close> with message \<open>m\<close>, \<open>None\<close> anything
  else) or yields a response.
\<close>

record fetch_response =
  resp_status :: nat
  resp_statusText :: string
  resp_contentType :: "string option"
  resp_body :: "nat list"

definition resp_ok :: "fetch_response \<Rightarrow> bool" where
  "resp_ok r = (200 \<le> resp_status r \<and> resp_status r \<le> 299)"

record image_response =
  image_headers :: "(string \<times> string) list"
  image_payload :: "nat list"

definition imageProxy_handler ::
  "(string \<Rightarrow> string \<Rightarrow> thrown + string) \<Rightarrow> string \<Rightarrow> (string \<Rightarrow> string option + fetch_response) \<Rightarrow>
     string option \<Rightarrow> string option \<Rightarrow> string list \<times> image_response outcome" where
  "imageProxy_handler URL_resolve publicBaseUrl fetch imageUrl imageKey =
     (case imageProxy_finalUrl URL_resolve publicBaseUrl imageUrl imageKey of
        Inl e \<Rightarrow> ([], Threw e)
      | Inr finalUrl \<Rightarrow>
          ([finalUrl],
           case fetch finalUrl of
             Inl None \<Rightarrow> Threw (HttpError 500 ''Failed to fetch image: Unknown error'')
           | Inl (Some m) \<Rightarrow> Threw (HttpError 500 (''Failed to fetch image: '' @ m))
           | Inr response \<Rightarrow>
               if \<not> resp_ok response
               then Threw (HttpError (resp_status response)
                             (''Failed to fetch image: '' @ resp_statusText response))
               else Responded
                      \<lparr>image_headers =
                         [(''Content-Type'', orElse (orEmpty (resp_contentType response)) ''image/jpeg''),
                          (''Content-Length'', show_nat (length (resp_body response))),
                          (''Cache-Control'', ''public, max-age=31536000, immutable''),
                          (''Access-Control-Allow-Origin'', ''*'')],
                       image_payload = resp_body response\<rparr>))"

text \<open>The status the client of the proxy sees.\<close>

definition imageProxy_status :: "image_response outcome \<Rightarrow> nat" where
  "imageProxy_status out = (case out of Responded r \<Rightarrow> 200 | Threw e \<Rightarrow> statusCode (errorHandler e))"

section \<open>Example inputs\<close>

text \<open>
  A small environment, request and set of collaborators on which the properties below are
  evaluated. The world is given by the replies of the two chat exchanges and of the
  Vertex model; JSON parsing fails on every block, every upload succeeds, and the
  fallback exchange returns two bytes.
\<close>

definition example_config :: config where
  "example_config =
     \<lparr>openai_apiKey = Some ''sk-test'',
      storage_accessKeyId = ''ak'',
      storage_secretAccessKey = ''sk'',
      storage_bucket = ''bucket'',
      storage_endpoint = ''https://s3.example.com'',
      storage_folder = ''internaluse'',
      storage_publicBaseUrl = ''https://cdn.example.com/'',
      google_projectId = ''nano-banana-472210'',
      google_location = ''us-central1'',
      google_credentialsPath = None,
      fal_apiKey = None,
      fal_endpoint = ''https://fal.run/fal-ai/gemini-25-flash-image'',
      fal_modelId = ''fal-ai/gemini-25-flash-image'',
      fal_aspectRatio = ''1:1'',
      image_outputFormat = ''png''\<rparr>"

definition example_env :: "string \<Rightarrow> string option" where
  "example_env =
     map_of [(''S3_ACCESS_KEY'', ''ak''), (''S3_SECRET_KEY'', ''sk''), (''S3_BUCKET_NAME'', ''bucket''),
             (''S3_ENDPOINT_URL'', ''https://s3.example.com''),
             (''S3_PUBLIC_LINK'', ''https://cdn.example.com/'')]"

definition example_fs :: filesystem where
  "example_fs = \<lparr>fs_absolute = id, fs_existsSync = (\<lambda>path. True)\<rparr>"

definition example_file :: multer_file where
  "example_file = \<lparr>mimetype = ''image/png'', file_size = 4, file_buffer = Bytes [137, 80, 78, 71]\<rparr>"

definition example_request :: "form_field \<Rightarrow> request" where
  "example_request userPromptField =
     \<lparr>files_baseImage = [example_file], files_referenceImages = [],
      body_userPrompt = userPromptField, body_aspectRatio = Single ''1:1''\<rparr>"

definition example_upload :: "nat \<Rightarrow> upload_result" where
  "example_upload i =
     \<lparr>upload_key = ''internaluse/'' @ show_nat i @ ''.png'',
      upload_url = ''https://cdn.example.com/internaluse/'' @ show_nat i @ ''.png''\<rparr>"

definition example_world ::
  "(string + string option) \<Rightarrow> (string + string option) \<Rightarrow> (thrown + string option) \<Rightarrow> world" where
  "example_world reply1 reply2 vertexReply =
     \<lparr>storage_uploadBuffer = (\<lambda>i. Inr (example_upload i)),
      openai_reconstruct = (\<lambda>imageBuffer mimeType. reply1),
      openai_edit = (\<lambda>basePrompt userInstructions refs. reply2),
      JSON_parse = (\<lambda>block. None),
      vertex_generateContent = (\<lambda>r. vertexReply),
      fal_http = (\<lambda>p opts. Inr (Bytes [1, 2]))\<rparr>"

section \<open>Verified properties: image synthesis client\<close>

lemma isQuotaExhaustedError_Object:
  "isQuotaExhaustedError (Object c) \<longleftrightarrow>
     code c = Some (CodeNum 8) \<or> code c = Some (CodeStr ''RESOURCE_EXHAUSTED'') \<or>
     status c = Some ''RESOURCE_EXHAUSTED'' \<or>
     str_includes (toUpperCase (orEmpty (details c) @ '' '' @ orEmpty (message c))) ''RESOURCE_EXHAUSTED'' \<or>
     str_includes (toUpperCase (orEmpty (details c) @ '' '' @ orEmpty (message c))) ''QUOTA''"
  by (simp add: isQuotaExhaustedError_def RESOURCE_EXHAUSTED_CODE_def RESOURCE_EXHAUSTED_STATUS_def Let_def)

lemma isQuotaExhaustedError_Primitive: "\<not> isQuotaExhaustedError Primitive"
  by (simp add: isQuotaExhaustedError_def)

text \<open>
  C1 (as amended). \<open>generateImage\<close> calls the primary (Vertex) provider first. The fallback
  provider is called if and only if the primary throws an object for which one of the
  following holds: its \<open>code\<close> is the number 8 or the string \<open>RESOURCE_EXHAUSTED\<close>, its
  \<open>status\<close> is \<open>RESOURCE_EXHAUSTED\<close>, or the uppercased text \<open>details + ' ' + message\<close>
  contains \<open>RESOURCE_EXHAUSTED\<close> or \<open>QUOTA\<close>. When the fallback is called its result is
  the result of \<open>generateImage\<close>; any other error of the primary is rethrown unchanged.
\<close>

theorem generateImage_fallback_policy:
  "hd (fst (generateImage far gc fb p opts)) = CallVertex \<and>
   (CallFallback \<in> set (fst (generateImage far gc fb p opts)) \<longleftrightarrow>
      (\<exists>c. generateWithVertex gc p (resolveOptions far opts) = Inl (Object c) \<and>
           (code c = Some (CodeNum 8) \<or> code c = Some (CodeStr ''RESOURCE_EXHAUSTED'') \<or>
            status c = Some ''RESOURCE_EXHAUSTED'' \<or>
            str_includes (toUpperCase (orEmpty (details c) @ '' '' @ orEmpty (message c)))
              ''RESOURCE_EXHAUSTED'' \<or>
            str_includes (toUpperCase (orEmpty (details c) @ '' '' @ orEmpty (message c)))
              ''QUOTA''))) \<and>
   (CallFallback \<in> set (fst (generateImage far gc fb p opts)) \<longrightarrow>
        snd (generateImage far gc fb p opts) = fb p (resolveOptions far opts)) \<and>
   (\<forall>e. generateWithVertex gc p (resolveOptions far opts) = Inl e \<and>
        CallFallback \<notin> set (fst (generateImage far gc fb p opts)) \<longrightarrow>
        snd (generateImage far gc fb p opts) = Inl e)"
proof (cases "generateWithVertex gc p (resolveOptions far opts)")
  case (Inr buf)
  then show ?thesis by (simp add: generateImage_def)
next
  case (Inl e)
  show ?thesis
  proof (cases e)
    case Primitive
    with Inl show ?thesis
      by (simp add: generateImage_def isQuotaExhaustedError_Primitive)
  next
    case (Object c)
    with Inl show ?thesis
      using isQuotaExhaustedError_Object [of c]
      by (auto simp add: generateImage_def)
  qed
qed

theorem generateImage_fallback_policy_witness:
  "CallFallback \<in> set (fst (generateImage ''1:1''
       (\<lambda>r. Inl (Object \<lparr>code = Some (CodeNum 8), status = None, details = None, message = Some ''boom''\<rparr>))
       (\<lambda>p opts. Inr (Bytes [1])) ''a cup'' \<lparr>aspectRatio = None\<rparr>)) \<and>
   snd (generateImage ''1:1''
       (\<lambda>r. Inl (Object \<lparr>code = Some (CodeNum 8), status = None, details = None, message = Some ''boom''\<rparr>))
       (\<lambda>p opts. Inr (Bytes [1])) ''a cup'' \<lparr>aspectRatio = None\<rparr>) = Inr (Bytes [1])"
  using generateImage_fallback_policy [of "''1:1''"
       "\<lambda>r. Inl (Object \<lparr>code = Some (CodeNum 8), status = None, details = None, message = Some ''boom''\<rparr>)"
       "\<lambda>p opts. Inr (Bytes [1])" "''a cup''" "\<lparr>aspectRatio = None\<rparr>"]
  by (simp add: generateWithVertex_def)

text \<open>
  C1 as stated fails: an error whose \<open>code\<close> is the string \<open>RESOURCE_EXHAUSTED\<close>, with no
  \<open>status\<close> and the message \<open>boom\<close>, meets none of the three stated conditions (numeric code
  8, status \<open>RESOURCE_EXHAUSTED\<close>, uppercased \<open>details\<close> and \<open>message\<close> containing
  \<open>RESOURCE_EXHAUSTED\<close> or \<open>QUOTA\<close>), and the fallback is called all the same.
\<close>

theorem generateImage_fallback_counterexample:
  "\<not> (CallFallback \<in> set (fst (generateImage ''1:1''
          (\<lambda>r. Inl (Object \<lparr>code = Some (CodeStr ''RESOURCE_EXHAUSTED''), status = None,
                             details = None, message = Some ''boom''\<rparr>))
          (\<lambda>p opts. Inr (Bytes [1])) ''a cup'' \<lparr>aspectRatio = None\<rparr>)) \<longleftrightarrow>
       (Some (CodeStr ''RESOURCE_EXHAUSTED'') = Some (CodeNum 8) \<or>
        (None :: string option) = Some ''RESOURCE_EXHAUSTED'' \<or>
        str_includes (toUpperCase (orEmpty None @ orEmpty (Some ''boom''))) ''RESOURCE_EXHAUSTED'' \<or>
        str_includes (toUpperCase (orEmpty None @ orEmpty (Some ''boom''))) ''QUOTA''))"
  by code_simp

section \<open>Verified properties: request validator\<close>

lemma foldl_file_size:
  "foldl (\<lambda>sum img. sum + file_size img) a refs = a + sum_list (map file_size refs)"
  by (induction refs arbitrary: a) simp_all

lemma validateTotalPayloadSize_eq:
  "validateTotalPayloadSize b refs =
     (if file_size b + sum_list (map file_size refs) > 52428800
      then Inl (HttpError 400
             (''Total image payload size ('' @
              megabytes_toFixed2 (file_size b + sum_list (map file_size refs)) @
              '' MB) exceeds 50 MB limit per request.''))
      else Inr ())"
  by (simp add: validateTotalPayloadSize_def foldl_file_size MAX_PAYLOAD_SIZE_def Let_def)

lemma show_nat_50: "show_nat 50 = ''50''"
  by code_simp

lemma digit_char_0: "digit_char 0 = CHR ''0''"
  by code_simp

lemma megabytes_toFixed2_just_over: "megabytes_toFixed2 52428801 = ''50.00''"
  by (simp add: megabytes_toFixed2_def Let_def show_nat_50 digit_char_0)

text \<open>
  What the multipart middleware lets through, and the sum rule on the route: a request
  the middleware accepts whose files add up to more than 50 MB is answered 400 with a
  message that reports the sum.
\<close>

lemma upload_fields_Inr:
  "upload_fields atLimit n req = Inr accepted \<Longrightarrow>
   accepted = req \<and>
   (\<forall>file \<in> set (files_baseImage req @ files_referenceImages req).
      mimetype file \<in> set SUPPORTED_MIME_TYPES \<and> file_size file \<le> MAX_PAYLOAD_SIZE)"
  by (auto simp add: upload_fields_def Let_def find_None_iff list_ex_iff not_less
      split: if_splits option.splits)

lemma validateReferences_ok:
  "(\<forall>r \<in> set refs. mimetype r \<in> set SUPPORTED_MIME_TYPES \<and> file_size r \<le> MAX_PAYLOAD_SIZE) \<Longrightarrow>
   validateReferences refs i = Inr ()"
  by (induction refs arbitrary: i) (simp_all add: validateImage_def)

lemma aggregate_ceiling_on_route:
  assumes "upload_fields atLimit n req = Inr accepted"
      and "files_baseImage req = [b]"
      and "file_size b + sum_list (map file_size (files_referenceImages req)) > 50 * 1024 * 1024"
  shows "imageFlow_route atLimit n cfg w req =
     \<lparr>statusCode = 400,
      body = [(''message'', JString
                (''Total image payload size ('' @
                 megabytes_toFixed2 (file_size b + sum_list (map file_size (files_referenceImages req))) @
                 '' MB) exceeds 50 MB limit per request.''))]\<rparr>"
proof -
  from upload_fields_Inr [OF assms(1)] assms(2) have
      a: "accepted = req" and
      vb: "mimetype b \<in> set SUPPORTED_MIME_TYPES \<and> file_size b \<le> MAX_PAYLOAD_SIZE" and
      vr: "\<forall>r \<in> set (files_referenceImages req).
             mimetype r \<in> set SUPPORTED_MIME_TYPES \<and> file_size r \<le> MAX_PAYLOAD_SIZE"
    by simp_all
  from vb have v1: "validateImage b ''Base image'' = Inr ()"
    by (simp add: validateImage_def)
  from vr have v2: "validateReferences (files_referenceImages req) 0 = Inr ()"
    by (rule validateReferences_ok)
  from assms(3) have v3: "validateTotalPayloadSize b (files_referenceImages req) =
      Inl (HttpError 400
        (''Total image payload size ('' @
         megabytes_toFixed2 (file_size b + sum_list (map file_size (files_referenceImages req))) @
         '' MB) exceeds 50 MB limit per request.''))"
    by (simp add: validateTotalPayloadSize_eq)
  from assms(2) v1 v2 v3 have "validateRequest req =
      Inl (HttpError 400
        (''Total image payload size ('' @
         megabytes_toFixed2 (file_size b + sum_list (map file_size (files_referenceImages req))) @
         '' MB) exceeds 50 MB limit per request.''))"
    by (simp add: validateRequest_def bindE_def)
  with assms(1) a show ?thesis
    by (simp add: imageFlow_route_def imageFlowRouter_def imageFlow_handler_def asyncHandler_def
          errorHandler_def)
qed

text \<open>
  C8 at the failing input. A PNG of 52428801 bytes (one byte over 50 MB), sent alone as
  \<open>baseImage\<close>, is stopped by the multipart middleware, whose \<open>fileSize\<close> limit is the same
  50 MB, and the error middleware answers 500 with a generic message, whichever way the
  parser treats a file of exactly the limit. The size check of \<open>validateImage\<close>, which would
  answer 400 and report the size, is never reached.
\<close>

theorem oversize_file_answered_500:
  "imageFlow_route False 2 example_config
     (example_world (Inr (Some ''a red cup on a table'')) (Inl ''unused'') (Inr (Some ''aGVsbG8='')))
     \<lparr>files_baseImage = [\<lparr>mimetype = ''image/png'', file_size = 52428801, file_buffer = Bytes []\<rparr>],
      files_referenceImages = [], body_userPrompt = Missing, body_aspectRatio = Missing\<rparr> =
     \<lparr>statusCode = 500, body = [(''message'', JString ''Unexpected error occurred'')]\<rparr> \<and>
   imageFlow_route True 2 example_config
     (example_world (Inr (Some ''a red cup on a table'')) (Inl ''unused'') (Inr (Some ''aGVsbG8='')))
     \<lparr>files_baseImage = [\<lparr>mimetype = ''image/png'', file_size = 52428801, file_buffer = Bytes []\<rparr>],
      files_referenceImages = [], body_userPrompt = Missing, body_aspectRatio = Missing\<rparr> =
     \<lparr>statusCode = 500, body = [(''message'', JString ''Unexpected error occurred'')]\<rparr> \<and>
   validateImage \<lparr>mimetype = ''image/png'', file_size = 52428801, file_buffer = Bytes []\<rparr>
     ''Base image'' =
     Inl (HttpError 400 ''Base image: Image size (50.00 MB) exceeds 50 MB limit.'')"
  by (simp add: imageFlow_route_def upload_fields_def SUPPORTED_MIME_TYPES_def MAX_PAYLOAD_SIZE_def
        errorHandler_def validateImage_def megabytes_toFixed2_just_over)

section \<open>Verified properties: vision / text model client\<close>

text \<open>
  What \<open>chatCompletionsJSON\<close> returns when the reply has a brace block that \<open>JSON.parse\<close>
  rejects: the reply itself, classified by four markers.
\<close>

lemma chatCompletionsJSON_parse_failure:
  "chatCompletions reply = Inr content \<Longrightarrow> jsonMatch content = Some block \<Longrightarrow>
   parse block = None \<Longrightarrow>
   chatCompletionsJSON parse reply =
     Inr \<lparr>response_prompt = JSStr content,
          response_isPromptGenerated =
            JSBool (\<not> (str_includes (toLowerCase content) ''i'm sorry'' \<or>
                       str_includes (toLowerCase content) ''i can't assist'' \<or>
                       str_includes (toLowerCase content) ''cannot'' \<or>
                       str_includes (toLowerCase content) ''unable to''))\<rparr>"
  by (simp add: chatCompletionsJSON_def)

text \<open>
  C3 at the failing input. The Stage 2 reply
  \<open>{prompt: Sorry, can't help with that, isPromptGenerated: false}\<close> has a brace block that
  is not JSON (\<open>JSON.parse\<close> throws), contains the marker \<open>can't help\<close> and none of the other
  four. \<open>applyUserInstructions\<close> returns it with \<open>isPromptGenerated = true\<close>, whereas the
  Stage 1 heuristic of \<open>reconstructPromptFromImage\<close> classifies the same text as a refusal.
\<close>

theorem applyUserInstructions_cant_help_generated:
  "applyUserInstructions
     (\<lambda>basePrompt userInstructions refs.
        Inr (Some ''{prompt: Sorry, can't help with that, isPromptGenerated: false}''))
     (\<lambda>block. None) ''a red cup on a table'' ''add a knife'' None =
   Inr \<lparr>response_prompt = JSStr ''{prompt: Sorry, can't help with that, isPromptGenerated: false}'',
        response_isPromptGenerated = JSBool True\<rparr> \<and>
   reconstructPromptFromImage
     (\<lambda>imageBuffer mimeType.
        Inr (Some ''{prompt: Sorry, can't help with that, isPromptGenerated: false}''))
     (Bytes []) ''image/png'' =
   Inr \<lparr>prompt = ''{prompt: Sorry, can't help with that, isPromptGenerated: false}'',
        isPromptGenerated = False\<rparr>"
  by code_simp

section \<open>Verified properties: proxy gateway\<close>

lemma imageProxy_finalUrl_key:
  "k \<noteq> [] \<Longrightarrow>
   imageProxy_finalUrl R base u (Some k) =
     (case R k base of Inl t \<Rightarrow> Inl (Thrown t) | Inr target \<Rightarrow> Inr target)"
  by (simp add: imageProxy_finalUrl_def)

lemma logger_warn: "logger_call ''warn'' = Inl (new_Error ''logger.warn is not a function'')"
  by (simp add: logger_call_def Logger_methods_def)

lemma imageProxy_finalUrl_no_key:
  "k = None \<or> k = Some [] \<Longrightarrow>
   imageProxy_finalUrl R base u k =
     (if u = None \<or> u = Some []
      then Inl (HttpError 400 ''Missing required query parameter: url or key'')
      else if startsWith (the u) base then Inr (the u)
      else Inl (Thrown (new_Error ''logger.warn is not a function'')))"
  by (auto simp add: imageProxy_finalUrl_def startsWith_def logger_warn)

text \<open>
  C7 (as amended). When neither \<open>key\<close> nor \<open>url\<close> is provided the proxy answers 400 without
  fetching. When only \<open>url\<close> is provided, the proxy fetches \<open>url\<close> if it has the public
  base URL as a prefix, and fetches nothing if it has not. When \<open>key\<close> is provided, alone
  or together with \<open>url\<close>, \<open>url\<close> is ignored and the proxy fetches the URL resolved from
  \<open>key\<close>.
\<close>

theorem imageProxy_parameter_rules:
  "((k = None \<or> k = Some []) \<and> (u = None \<or> u = Some []) \<longrightarrow>
      fst (imageProxy_handler R base fetch u k) = [] \<and>
      imageProxy_status (snd (imageProxy_handler R base fetch u k)) = 400) \<and>
   ((k = None \<or> k = Some []) \<and> u = Some x \<and> x \<noteq> [] \<and> \<not> startsWith x base \<longrightarrow>
      fst (imageProxy_handler R base fetch u k) = []) \<and>
   ((k = None \<or> k = Some []) \<and> u = Some x \<and> x \<noteq> [] \<and> startsWith x base \<longrightarrow>
      fst (imageProxy_handler R base fetch u k) = [x]) \<and>
   (k = Some y \<and> y \<noteq> [] \<and> R y base = Inr target \<longrightarrow>
      fst (imageProxy_handler R base fetch u k) = [target])"
proof -
  have a: "(k = None \<or> k = Some []) \<and> (u = None \<or> u = Some []) \<longrightarrow>
      fst (imageProxy_handler R base fetch u k) = [] \<and>
      imageProxy_status (snd (imageProxy_handler R base fetch u k)) = 400"
  proof
    assume "(k = None \<or> k = Some []) \<and> (u = None \<or> u = Some [])"
    then have "imageProxy_finalUrl R base u k =
        Inl (HttpError 400 ''Missing required query parameter: url or key'')"
      using imageProxy_finalUrl_no_key [of k R base u] by auto
    then show "fst (imageProxy_handler R base fetch u k) = [] \<and>
        imageProxy_status (snd (imageProxy_handler R base fetch u k)) = 400"
      by (simp add: imageProxy_handler_def imageProxy_status_def errorHandler_def)
  qed
  have b: "(k = None \<or> k = Some []) \<and> u = Some x \<and> x \<noteq> [] \<and> \<not> startsWith x base \<longrightarrow>
      fst (imageProxy_handler R base fetch u k) = []"
  proof
    assume "(k = None \<or> k = Some []) \<and> u = Some x \<and> x \<noteq> [] \<and> \<not> startsWith x base"
    then have "imageProxy_finalUrl R base u k =
        Inl (Thrown (new_Error ''logger.warn is not a function''))"
      using imageProxy_finalUrl_no_key [of k R base u] by auto
    then show "fst (imageProxy_handler R base fetch u k) = []"
      by (simp add: imageProxy_handler_def)
  qed
  have c: "(k = None \<or> k = Some []) \<and> u = Some x \<and> x \<noteq> [] \<and> startsWith x base \<longrightarrow>
      fst (imageProxy_handler R base fetch u k) = [x]"
  proof
    assume "(k = None \<or> k = Some []) \<and> u = Some x \<and> x \<noteq> [] \<and> startsWith x base"
    then have "imageProxy_finalUrl R base u k = Inr x"
      using imageProxy_finalUrl_no_key [of k R base u] by auto
    then show "fst (imageProxy_handler R base fetch u k) = [x]"
      by (simp add: imageProxy_handler_def)
  qed
  have d: "k = Some y \<and> y \<noteq> [] \<and> R y base = Inr target \<longrightarrow>
      fst (imageProxy_handler R base fetch u k) = [target]"
  proof
    assume "k = Some y \<and> y \<noteq> [] \<and> R y base = Inr target"
    then have "imageProxy_finalUrl R base u k = Inr target"
      using imageProxy_finalUrl_key [of y R base u] by simp
    then show "fst (imageProxy_handler R base fetch u k) = [target]"
      by (simp add: imageProxy_handler_def)
  qed
  from a b c d show ?thesis by (intro conjI)
qed

theorem imageProxy_parameter_rules_witness:
  "fst (imageProxy_handler (\<lambda>key base. Inr (base @ key)) ''https://cdn.example.com/''
          (\<lambda>target. Inl None) None None) = [] \<and>
   imageProxy_status (snd (imageProxy_handler (\<lambda>key base. Inr (base @ key)) ''https://cdn.example.com/''
          (\<lambda>target. Inl None) None None)) = 400 \<and>
   fst (imageProxy_handler (\<lambda>key base. Inr (base @ key)) ''https://cdn.example.com/''
          (\<lambda>target. Inl None) (Some ''https://evil.example/x.png'') None) = [] \<and>
   fst (imageProxy_handler (\<lambda>key base. Inr (base @ key)) ''https://cdn.example.com/''
          (\<lambda>target. Inl None) (Some ''https://cdn.example.com/a.png'') None) =
     [''https://cdn.example.com/a.png''] \<and>
   fst (imageProxy_handler (\<lambda>key base. Inr (base @ key)) ''https://cdn.example.com/''
          (\<lambda>target. Inl None) (Some ''https://evil.example/x.png'') (Some ''a.png'')) =
     [''https://cdn.example.com/a.png'']"
  using imageProxy_parameter_rules
          [of None None "\<lambda>key base. Inr (base @ key)" "''https://cdn.example.com/''"
              "\<lambda>target. Inl None" "''x''" "''y''" "''t''"]
        imageProxy_parameter_rules
          [of None "Some ''https://evil.example/x.png''" "\<lambda>key base. Inr (base @ key)"
              "''https://cdn.example.com/''" "\<lambda>target. Inl None" "''https://evil.example/x.png''"
              "''y''" "''t''"]
        imageProxy_parameter_rules
          [of None "Some ''https://cdn.example.com/a.png''" "\<lambda>key base. Inr (base @ key)"
              "''https://cdn.example.com/''" "\<lambda>target. Inl None" "''https://cdn.example.com/a.png''"
              "''y''" "''t''"]
        imageProxy_parameter_rules
          [of "Some ''a.png''" "Some ''https://evil.example/x.png''" "\<lambda>key base. Inr (base @ key)"
              "''https://cdn.example.com/''" "\<lambda>target. Inl None" "''x''"
              "''a.png''" "''https://cdn.example.com/a.png''"]
  by (simp add: startsWith_def)

text \<open>
  C7 as stated fails: a request that supplies both \<open>key\<close> and \<open>url\<close>, the latter outside
  the storage base, is not answered 400 or 403. The proxy fetches the URL resolved from
  \<open>key\<close> and, the upstream answering 200, serves the image.
\<close>

theorem imageProxy_both_parameters_counterexample:
  "fst (imageProxy_handler (\<lambda>key base. Inr (base @ key)) ''https://cdn.example.com/''
          (\<lambda>target. Inr \<lparr>resp_status = 200, resp_statusText = ''OK'',
                          resp_contentType = Some ''image/png'', resp_body = [137, 80]\<rparr>)
          (Some ''https://evil.example/x.png'') (Some ''a.png'')) =
     [''https://cdn.example.com/a.png''] \<and>
   imageProxy_status
     (snd (imageProxy_handler (\<lambda>key base. Inr (base @ key)) ''https://cdn.example.com/''
          (\<lambda>target. Inr \<lparr>resp_status = 200, resp_statusText = ''OK'',
                          resp_contentType = Some ''image/png'', resp_body = [137, 80]\<rparr>)
          (Some ''https://evil.example/x.png'') (Some ''a.png''))) = 200"
  by (simp add: imageProxy_handler_def imageProxy_finalUrl_def imageProxy_status_def resp_ok_def)

text \<open>
  C10. The prefix restriction applies to \<open>url\<close> only. For every request with a non-empty
  \<open>key\<close> the fetch target is \<open>new URL(key, public_base_url)\<close>, whatever it is: when that URL
  does not have the public base URL as a prefix (as for a \<open>key\<close> that is itself an absolute
  URL), the proxy still fetches it, and serves the image with status 200 when the
  upstream answers successfully.
\<close>

theorem imageProxy_key_unrestricted:
  "y \<noteq> [] \<and> R y base = Inr target \<and> \<not> startsWith target base \<longrightarrow>
     imageProxy_finalUrl R base u (Some y) = Inr target \<and>
     fst (imageProxy_handler R base fetch u (Some y)) = [target] \<and>
     (\<forall>resp. fetch target = Inr resp \<and> resp_ok resp \<longrightarrow>
        imageProxy_status (snd (imageProxy_handler R base fetch u (Some y))) = 200)"
proof
  assume h: "y \<noteq> [] \<and> R y base = Inr target \<and> \<not> startsWith target base"
  then have f: "imageProxy_finalUrl R base u (Some y) = Inr target"
    using imageProxy_finalUrl_key [of y R base u] by simp
  then show "imageProxy_finalUrl R base u (Some y) = Inr target \<and>
     fst (imageProxy_handler R base fetch u (Some y)) = [target] \<and>
     (\<forall>resp. fetch target = Inr resp \<and> resp_ok resp \<longrightarrow>
        imageProxy_status (snd (imageProxy_handler R base fetch u (Some y))) = 200)"
    by (simp add: imageProxy_handler_def imageProxy_status_def)
qed

theorem imageProxy_key_unrestricted_witness:
  "\<not> startsWith ''https://evil.example/x.png'' ''https://cdn.example.com/'' \<and>
   fst (imageProxy_handler
          (\<lambda>key base. if startsWith key ''https://'' then Inr key else Inr (base @ key))
          ''https://cdn.example.com/''
          (\<lambda>target. Inr \<lparr>resp_status = 200, resp_statusText = ''OK'',
                          resp_contentType = Some ''image/png'', resp_body = [137, 80]\<rparr>)
          None (Some ''https://evil.example/x.png'')) = [''https://evil.example/x.png''] \<and>
   imageProxy_status (snd (imageProxy_handler
          (\<lambda>key base. if startsWith key ''https://'' then Inr key else Inr (base @ key))
          ''https://cdn.example.com/''
          (\<lambda>target. Inr \<lparr>resp_status = 200, resp_statusText = ''OK'',
                          resp_contentType = Some ''image/png'', resp_body = [137, 80]\<rparr>)
          None (Some ''https://evil.example/x.png''))) = 200"
  using imageProxy_key_unrestricted
          [of "''https://evil.example/x.png''"
              "\<lambda>key base. if startsWith key ''https://'' then Inr key else Inr (base @ key)"
              "''https://cdn.example.com/''" "''https://evil.example/x.png''" None
              "\<lambda>target. Inr \<lparr>resp_status = 200, resp_statusText = ''OK'',
                          resp_contentType = Some ''image/png'', resp_body = [137, 80]\<rparr>"]
  by (simp add: startsWith_def resp_ok_def)

section \<open>Verified properties: configuration and credentials\<close>

lemma loadConfig_openai_key:
  "loadConfig (env(''OPENAI_API_KEY'' := v)) fs =
     map_sum id (\<lambda>cfg. cfg\<lparr>openai_apiKey := v\<rparr>) (loadConfig env fs)"
  by (simp add: loadConfig_def bindE_def required_def nullish_def split: sum.splits option.splits)

lemma loadConfig_fal_key:
  "loadConfig (env(''FAL_API_KEY'' := v)) fs =
     map_sum id (\<lambda>cfg. cfg\<lparr>fal_apiKey := v\<rparr>) (loadConfig env fs)"
  by (simp add: loadConfig_def bindE_def required_def nullish_def split: sum.splits option.splits)

lemma loadConfig_keys_of_env:
  "loadConfig env fs = Inr cfg \<Longrightarrow>
   openai_apiKey cfg = env ''OPENAI_API_KEY'' \<and> fal_apiKey cfg = env ''FAL_API_KEY''"
  by (auto simp add: loadConfig_def bindE_def split: sum.splits)

lemma createOpenAIService_no_key:
  "openai_apiKey cfg = None \<Longrightarrow>
   createOpenAIService cfg =
     Inl (new_Error ''OpenAI API key is required. Set OPENAI_API_KEY environment variable.'')"
  by (simp add: createOpenAIService_def OpenAIService_constructor_def orEmpty_def orElse_def)

text \<open>
  C9 (as amended). Whether the process starts does not depend on \<open>OPENAI_API_KEY\<close>, nor on
  \<open>FAL_API_KEY\<close>: with either variable set to any value or removed, \<open>startup\<close> fails with
  the same error or not at all. When \<open>OPENAI_API_KEY\<close> is absent the failure comes with each
  request: the handler constructs the OpenAI service after validating the request and
  uploading the inputs, the constructor throws, and the request is answered 500. When
  \<open>FAL_API_KEY\<close> is absent the fallback provider throws when it is called.
\<close>

theorem api_keys_checked_lazily:
  "(startup (env(''OPENAI_API_KEY'' := v)) fs = StartupFailed e \<longleftrightarrow> startup env fs = StartupFailed e) \<and>
   (startup (env(''FAL_API_KEY'' := v)) fs = StartupFailed e \<longleftrightarrow> startup env fs = StartupFailed e) \<and>
   (startup env fs = Listening cfg \<and> env ''OPENAI_API_KEY'' = None \<and>
    validateRequest req = Inr (b, refs, pl) \<and> uploadInputs w b refs = (cs, Inr ups) \<longrightarrow>
      imageFlow_handler cfg w req =
        (cs, Threw (Thrown (new_Error
           ''OpenAI API key is required. Set OPENAI_API_KEY environment variable.''))) \<and>
      statusCode (imageFlowRouter cfg w req) = 500) \<and>
   (startup env fs = Listening cfg \<and> env ''FAL_API_KEY'' = None \<longrightarrow>
      FalImageService_generateImage (fal_apiKey cfg) http p opts =
        Inl (new_Error ''FAL_API_KEY must be configured to use fal.ai as a fallback provider.''))"
proof -
  have a: "startup (env(''OPENAI_API_KEY'' := v)) fs = StartupFailed e \<longleftrightarrow>
           startup env fs = StartupFailed e"
    by (cases "loadConfig env fs") (simp_all add: startup_def loadConfig_openai_key)
  have b: "startup (env(''FAL_API_KEY'' := v)) fs = StartupFailed e \<longleftrightarrow>
           startup env fs = StartupFailed e"
    by (cases "loadConfig env fs") (simp_all add: startup_def loadConfig_fal_key)
  have c: "startup env fs = Listening cfg \<and> env ''OPENAI_API_KEY'' = None \<and>
    validateRequest req = Inr (b, refs, pl) \<and> uploadInputs w b refs = (cs, Inr ups) \<longrightarrow>
      imageFlow_handler cfg w req =
        (cs, Threw (Thrown (new_Error
           ''OpenAI API key is required. Set OPENAI_API_KEY environment variable.''))) \<and>
      statusCode (imageFlowRouter cfg w req) = 500"
  proof
    assume h: "startup env fs = Listening cfg \<and> env ''OPENAI_API_KEY'' = None \<and>
      validateRequest req = Inr (b, refs, pl) \<and> uploadInputs w b refs = (cs, Inr ups)"
    then have "loadConfig env fs = Inr cfg"
      by (cases "loadConfig env fs") (simp_all add: startup_def)
    with h have "openai_apiKey cfg = None"
      using loadConfig_keys_of_env [of env fs cfg] by simp
    then have k: "createOpenAIService cfg =
        Inl (new_Error ''OpenAI API key is required. Set OPENAI_API_KEY environment variable.'')"
      by (rule createOpenAIService_no_key)
    obtain bu rus where ups: "ups = (bu, rus)" by (cases ups)
    from h k ups have r: "imageFlow_handler cfg w req =
        (cs, Threw (Thrown (new_Error
           ''OpenAI API key is required. Set OPENAI_API_KEY environment variable.'')))"
      by (simp add: imageFlow_handler_def)
    then show "imageFlow_handler cfg w req =
        (cs, Threw (Thrown (new_Error
           ''OpenAI API key is required. Set OPENAI_API_KEY environment variable.''))) \<and>
      statusCode (imageFlowRouter cfg w req) = 500"
      by (simp add: imageFlowRouter_def asyncHandler_def errorHandler_def)
  qed
  have d: "startup env fs = Listening cfg \<and> env ''FAL_API_KEY'' = None \<longrightarrow>
      FalImageService_generateImage (fal_apiKey cfg) http p opts =
        Inl (new_Error ''FAL_API_KEY must be configured to use fal.ai as a fallback provider.'')"
  proof
    assume h: "startup env fs = Listening cfg \<and> env ''FAL_API_KEY'' = None"
    then have "loadConfig env fs = Inr cfg"
      by (cases "loadConfig env fs") (simp_all add: startup_def)
    with h have "fal_apiKey cfg = None"
      using loadConfig_keys_of_env [of env fs cfg] by simp
    then show "FalImageService_generateImage (fal_apiKey cfg) http p opts =
        Inl (new_Error ''FAL_API_KEY must be configured to use fal.ai as a fallback provider.'')"
      by (simp add: FalImageService_generateImage_def)
  qed
  from a b c d show ?thesis by (intro conjI)
qed

text \<open>
  C9 as stated fails: with the five storage variables set and \<open>OPENAI_API_KEY\<close> absent, the
  configuration loads and the server listens.
\<close>

theorem startup_without_openai_key_counterexample:
  "startup
     (map_of [(''S3_ACCESS_KEY'', ''ak''), (''S3_SECRET_KEY'', ''sk''), (''S3_BUCKET_NAME'', ''bucket''),
              (''S3_ENDPOINT_URL'', ''https://s3.example.com''),
              (''S3_PUBLIC_LINK'', ''https://cdn.example.com/'')])
     \<lparr>fs_absolute = id, fs_existsSync = (\<lambda>path. True)\<rparr> =
   Listening
     \<lparr>openai_apiKey = None,
      storage_accessKeyId = ''ak'',
      storage_secretAccessKey = ''sk'',
      storage_bucket = ''bucket'',
      storage_endpoint = ''https://s3.example.com'',
      storage_folder = ''internaluse'',
      storage_publicBaseUrl = ''https://cdn.example.com/'',
      google_projectId = ''nano-banana-472210'',
      google_location = ''us-central1'',
      google_credentialsPath = None,
      fal_apiKey = None,
      fal_endpoint = ''https://fal.run/fal-ai/gemini-25-flash-image'',
      fal_modelId = ''fal-ai/gemini-25-flash-image'',
      fal_aspectRatio = ''1:1'',
      image_outputFormat = ''png''\<rparr>"
  by (simp add: startup_def loadConfig_def bindE_def required_def resolveCredentialPath_def
        nullish_def ensureValidAspectRatio_def DEFAULT_ASPECT_RATIO_def
        FAL_DEFAULT_ENDPOINT_def FAL_DEFAULT_MODEL_ID_def)

section \<open>Verified properties: pipeline orchestrator\<close>

lemma chatCompletions_nonempty: "chatCompletions reply = Inr content \<Longrightarrow> content \<noteq> []"
  by (auto simp add: chatCompletions_def split: sum.splits option.splits if_splits)

lemma reconstruct_prompt_nonempty:
  "reconstructPromptFromImage mk buf mime = Inr out \<Longrightarrow> prompt out \<noteq> []"
  by (auto simp add: reconstructPromptFromImage_def Let_def dest: chatCompletions_nonempty
      split: sum.splits)

lemma step1_Inl:
  "step1 w b bu rus = Inl r \<Longrightarrow> \<exists>p1 e. r = shortCircuit bu rus p1 JNull e \<and> e \<noteq> []"
  by (auto simp add: step1_def Let_def split: sum.splits if_splits)


lemma step2_Inl:
  "step2 w pl refs bu rus p1 = (cs2, Inl r) \<Longrightarrow>
   cs2 = [CallApplyInstructions] \<and>
   (\<exists>p2 e. r = shortCircuit bu rus (JString p1) p2 e \<and> e \<noteq> [])"
  by (auto simp add: step2_def Let_def split: sum.splits if_splits)


lemma step2_Inr:
  "step2 w pl refs bu rus p1 = (cs2, Inr (p2, ex)) \<Longrightarrow>
   (cs2 = [] \<and> p2 = p1 \<and> \<not> ex) \<or> (cs2 = [CallApplyInstructions] \<and> ex)"
  by (auto simp add: step2_def Let_def split: sum.splits if_splits)

lemma generateImage_calls:
  "generateImage far gc fb p opts = (cs, r) \<Longrightarrow>
   cs = [CallVertex] \<or> cs = [CallVertex, CallFallback]"
  by (auto simp add: generateImage_def Let_def split: sum.splits if_splits)

lemma step3_calls:
  "step3 cfg w pl n p2 = (cs3, r) \<Longrightarrow>
   CallVertex \<in> set cs3 \<and> CallReconstruct \<notin> set cs3 \<and> CallApplyInstructions \<notin> set cs3 \<and>
   (\<forall>ou. r = Inr ou \<longrightarrow>
      CallUploadOutput \<in> set cs3 \<and> storage_uploadBuffer w (Suc n) = Inr ou \<and>
      (\<exists>buf. snd (geminiService_generateImage cfg w p2
                   \<lparr>aspectRatio = payload_aspectRatio pl\<rparr>) = Inr buf))"
  by (auto simp add: step3_def geminiService_generateImage_def split: prod.splits sum.splits
      dest: generateImage_calls)

lemma uploadInputs_calls:
  "uploadInputs w b refs = (cs, r) \<Longrightarrow>
   CallReconstruct \<notin> set cs \<and> CallApplyInstructions \<notin> set cs \<and> CallVertex \<notin> set cs \<and>
   CallUploadOutput \<notin> set cs"
  by (auto simp add: uploadInputs_def split: sum.splits)

lemma uploadInputs_base:
  "uploadInputs w b refs = (cs, Inr (bu, rus)) \<Longrightarrow> storage_uploadBuffer w 0 = Inr bu"
  by (auto simp add: uploadInputs_def split: sum.splits)

text \<open>How Stages 2 and 3 can end.\<close>

lemma continueFromStep2_cases:
  assumes "continueFromStep2 cfg w refs pl bu rus p1 = (cs, out)"
  shows "CallReconstruct \<notin> set cs \<and>
    ((cs = [CallApplyInstructions] \<and>
      (\<exists>p2 e. out = Responded (shortCircuit bu rus (JString p1) p2 e) \<and> e \<noteq> [])) \<or>
     (CallVertex \<in> set cs \<and> (\<exists>t. out = Threw (Thrown t))) \<or>
     (CallVertex \<in> set cs \<and> CallUploadOutput \<in> set cs \<and>
      (\<exists>p2 ou ex buf. out = Responded (successResponse bu rus p1 p2 ou ex) \<and>
         storage_uploadBuffer w (Suc (length refs)) = Inr ou \<and>
         (ex \<longleftrightarrow> CallApplyInstructions \<in> set cs) \<and> (\<not> ex \<longrightarrow> p2 = p1) \<and>
         snd (geminiService_generateImage cfg w p2 \<lparr>aspectRatio = payload_aspectRatio pl\<rparr>) = Inr buf)))"
proof (cases "step2 w pl refs bu rus p1")
  case (Pair cs2 r2)
  show ?thesis
  proof (cases r2)
    case (Inl r)
    with Pair assms step2_Inl [of w pl refs bu rus p1 cs2 r] show ?thesis
      by (auto simp add: continueFromStep2_def)
  next
    case (Inr pe)
    obtain p2 ex where pe: "pe = (p2, ex)" by (cases pe)
    obtain cs3 r3 where s3: "step3 cfg w pl (length refs) p2 = (cs3, r3)"
      by (cases "step3 cfg w pl (length refs) p2")
    from Pair Inr pe have s2: "step2 w pl refs bu rus p1 = (cs2, Inr (p2, ex))" by simp
    note c2 = step2_Inr [OF s2]
    note c3 = step3_calls [OF s3]
    show ?thesis
    proof (cases r3)
      case (Inl t)
      with assms s2 s3 c2 c3 show ?thesis
        by (auto simp add: continueFromStep2_def)
    next
      case (Inr ou)
      with assms s2 s3 c2 c3 show ?thesis
        by (auto simp add: continueFromStep2_def)
    qed
  qed
qed

lemma continueFromStep2_nonempty: "fst (continueFromStep2 cfg w refs pl bu rus p1) \<noteq> []"
  using continueFromStep2_cases [of cfg w refs pl bu rus p1
          "fst (continueFromStep2 cfg w refs pl bu rus p1)"
          "snd (continueFromStep2 cfg w refs pl bu rus p1)"]
  by auto

text \<open>How Stages 1 to 3 can end.\<close>

lemma pipeline_cases:
  assumes "pipeline cfg w b refs pl bu rus = (cs, out)"
  shows "CallReconstruct \<in> set cs \<and>
    ((CallVertex \<notin> set cs \<and> CallUploadOutput \<notin> set cs \<and>
      (\<exists>p1 p2 e. out = Responded (shortCircuit bu rus p1 p2 e) \<and> e \<noteq> [])) \<or>
     (CallVertex \<in> set cs \<and> (\<exists>t. out = Threw (Thrown t))) \<or>
     (CallVertex \<in> set cs \<and> CallUploadOutput \<in> set cs \<and>
      (\<exists>p1 p2 ou ex buf. out = Responded (successResponse bu rus p1 p2 ou ex) \<and>
         storage_uploadBuffer w (Suc (length refs)) = Inr ou \<and>
         (ex \<longleftrightarrow> CallApplyInstructions \<in> set cs) \<and> (\<not> ex \<longrightarrow> p2 = p1) \<and>
         snd (geminiService_generateImage cfg w p2 \<lparr>aspectRatio = payload_aspectRatio pl\<rparr>) = Inr buf)))"
proof (cases "step1 w b bu rus")
  case (Inl r)
  from step1_Inl [OF Inl] obtain p1 e where
      r: "r = shortCircuit bu rus p1 JNull e" "e \<noteq> []"
    by blast
  from assms Inl have c: "cs = [CallReconstruct]" "out = Responded r"
    by (simp_all add: pipeline_def)
  from r c have "\<exists>p1 p2 e. out = Responded (shortCircuit bu rus p1 p2 e) \<and> e \<noteq> []"
    by blast
  with c show ?thesis by simp
next
  case (Inr p1)
  obtain cs' out' where c: "continueFromStep2 cfg w refs pl bu rus p1 = (cs', out')"
    by (cases "continueFromStep2 cfg w refs pl bu rus p1")
  from assms Inr c have e: "cs = CallReconstruct # cs'" "out = out'"
    by (simp_all add: pipeline_def)
  from continueFromStep2_cases [OF c]
  consider
      (short) "cs' = [CallApplyInstructions]"
        "\<exists>p2 e. out' = Responded (shortCircuit bu rus (JString p1) p2 e) \<and> e \<noteq> []"
    | (threw) "CallVertex \<in> set cs'" "\<exists>t. out' = Threw (Thrown t)"
    | (complete) "CallVertex \<in> set cs'" "CallUploadOutput \<in> set cs'"
        "\<exists>p2 ou ex buf. out' = Responded (successResponse bu rus p1 p2 ou ex) \<and>
           storage_uploadBuffer w (Suc (length refs)) = Inr ou \<and>
           (ex \<longleftrightarrow> CallApplyInstructions \<in> set cs') \<and> (\<not> ex \<longrightarrow> p2 = p1) \<and>
           snd (geminiService_generateImage cfg w p2 \<lparr>aspectRatio = payload_aspectRatio pl\<rparr>) = Inr buf"
    by blast
  then show ?thesis
  proof cases
    case short
    then have "\<exists>p1 p2 e. out = Responded (shortCircuit bu rus p1 p2 e) \<and> e \<noteq> []"
      using e by blast
    with short e show ?thesis by simp
  next
    case threw
    with e show ?thesis by simp
  next
    case complete
    then have "\<exists>p1 p2 ou ex buf. out = Responded (successResponse bu rus p1 p2 ou ex) \<and>
         storage_uploadBuffer w (Suc (length refs)) = Inr ou \<and>
         (ex \<longleftrightarrow> CallApplyInstructions \<in> set cs) \<and> (\<not> ex \<longrightarrow> p2 = p1) \<and>
         snd (geminiService_generateImage cfg w p2 \<lparr>aspectRatio = payload_aspectRatio pl\<rparr>) = Inr buf"
      using e by auto
    with complete e show ?thesis by simp
  qed
qed

lemma validateImage_error: "validateImage f ctx = Inl e \<Longrightarrow> \<exists>m. e = HttpError 400 m"
  by (auto simp add: validateImage_def split: if_splits)

lemma validateReferences_error: "validateReferences refs i = Inl e \<Longrightarrow> \<exists>m. e = HttpError 400 m"
proof (induction refs arbitrary: i)
  case Nil
  then show ?case by simp
next
  case (Cons r refs)
  then show ?case
    by (auto split: sum.splits dest: validateImage_error)
qed

lemma validateTotalPayloadSize_error:
  "validateTotalPayloadSize b refs = Inl e \<Longrightarrow> \<exists>m. e = HttpError 400 m"
  by (auto simp add: validateTotalPayloadSize_def Let_def split: if_splits)

lemma imageFlowSchema_parse_error: "imageFlowSchema_parse a r = Inl e \<Longrightarrow> e = ZodError"
  by (auto simp add: imageFlowSchema_parse_def split: form_field.splits if_splits)

lemma validateRequest_error:
  "validateRequest req = Inl e \<Longrightarrow> e = ZodError \<or> (\<exists>m. e = HttpError 400 m)"
  by (auto simp add: validateRequest_def bindE_def Let_def split: list.splits sum.splits
      dest: validateImage_error validateReferences_error validateTotalPayloadSize_error
        imageFlowSchema_parse_error)

lemma validateRequest_Inr:
  "validateRequest req = Inr (b, refs, pl) \<Longrightarrow>
   refs = files_referenceImages req \<and>
   imageFlowSchema_parse (body_userPrompt req) (body_aspectRatio req) = Inr pl"
  by (auto simp add: validateRequest_def bindE_def Let_def split: list.splits sum.splits)

text \<open>The handler either throws before Stage 1 or runs the pipeline on the uploaded inputs.\<close>

lemma imageFlow_handler_cases:
  assumes "imageFlow_handler cfg w req = (calls, out)"
  shows "(CallReconstruct \<notin> set calls \<and> CallVertex \<notin> set calls \<and>
          CallApplyInstructions \<notin> set calls \<and> (\<exists>e. out = Threw e \<and>
            (e = ZodError \<or> (\<exists>m. e = HttpError 400 m) \<or> (\<exists>t. e = Thrown t)))) \<or>
         (\<exists>b refs pl cs bu rus k cs'.
            validateRequest req = Inr (b, refs, pl) \<and>
            uploadInputs w b refs = (cs, Inr (bu, rus)) \<and>
            createOpenAIService cfg = Inr k \<and>
            pipeline cfg w b refs pl bu rus = (cs', out) \<and> calls = cs @ cs')"
proof (cases "validateRequest req")
  case (Inl e)
  with assms validateRequest_error [of req e] show ?thesis
    by (auto simp add: imageFlow_handler_def)
next
  case (Inr v)
  obtain b refs pl where v: "v = (b, refs, pl)" by (cases v)
  obtain cs ru where u: "uploadInputs w b refs = (cs, ru)" by (cases "uploadInputs w b refs")
  note uc = uploadInputs_calls [OF u]
  show ?thesis
  proof (cases ru)
    case (Inl t)
    with assms Inr v u uc show ?thesis
      by (auto simp add: imageFlow_handler_def)
  next
    case ups: (Inr up)
    obtain bu rus where up: "up = (bu, rus)" by (cases up)
    show ?thesis
    proof (cases "createOpenAIService cfg")
      case (Inl t)
      with assms Inr v u uc ups up show ?thesis
        by (auto simp add: imageFlow_handler_def)
    next
      case k: (Inr k)
      obtain cs' out' where p: "pipeline cfg w b refs pl bu rus = (cs', out')"
        by (cases "pipeline cfg w b refs pl bu rus")
      with assms Inr v u ups up k have "calls = cs @ cs'" "out = out'"
        by (simp_all add: imageFlow_handler_def)
      with Inr v u ups up k p show ?thesis
        by auto
    qed
  qed
qed

lemma imageFlow_handler_reached:
  assumes "validateRequest req = Inr (b, refs, pl)"
      and "uploadInputs w b refs = (cs, Inr (bu, rus))"
      and "createOpenAIService cfg = Inr k"
  shows "imageFlow_handler cfg w req =
           (cs @ fst (pipeline cfg w b refs pl bu rus), snd (pipeline cfg w b refs pl bu rus))"
  using assms by (simp add: imageFlow_handler_def split: prod.splits)

text \<open>The example request passes validation, its upload succeeds and the service exists.\<close>

lemma example_validateRequest:
  "validateRequest (example_request Missing) =
     Inr (example_file, [], \<lparr>payload_userPrompt = None, payload_aspectRatio = Some ''1:1''\<rparr>)"
  "validateRequest (example_request (Single x)) =
     Inr (example_file, [], \<lparr>payload_userPrompt = Some x, payload_aspectRatio = Some ''1:1''\<rparr>)"
  by (simp_all add: validateRequest_def example_request_def example_file_def bindE_def
        validateImage_def validateTotalPayloadSize_def SUPPORTED_MIME_TYPES_def
        MAX_PAYLOAD_SIZE_def imageFlowSchema_parse_def ASPECT_RATIO_OPTIONS_def)

lemma example_uploadInputs:
  "uploadInputs (example_world r1 r2 v) example_file [] =
     ([CallUploadBase], Inr (example_upload 0, []))"
  by (simp add: uploadInputs_def example_world_def)

lemma example_createOpenAIService: "createOpenAIService example_config = Inr ''sk-test''"
  by (simp add: createOpenAIService_def OpenAIService_constructor_def example_config_def
        orElse_def orEmpty_def)


lemma step1_of_outcome:
  assumes "reconstructPromptFromImage (openai_reconstruct w) (file_buffer b) (mimetype b) = Inr out"
  shows "step1 w b bu rus =
     (if \<not> isPromptGenerated out
      then Inl (shortCircuit bu rus (JString (prompt out)) JNull
                  (''OpenAI could not reconstruct the prompt: '' @ prompt out))
      else if length (trim (prompt out)) < 3
      then Inl (shortCircuit bu rus (JString (orElse (trim (prompt out)) ''Invalid prompt'')) JNull
                  ''OpenAI did not return a valid reconstructed prompt. Please try again with a different image.'')
      else Inr (trim (prompt out)))"
  using assms reconstruct_prompt_nonempty [OF assms]
  by (auto simp add: step1_def Let_def orElse_def)


lemma example_refusal_handler:
  "imageFlow_handler example_config
     (example_world (Inr (Some ''I cannot help with that'')) (Inl ''unused'') (Inl (new_Error ''boom'')))
     (example_request Missing) =
   ([CallUploadBase, CallReconstruct],
    Responded (shortCircuit (example_upload 0) [] (JString ''I cannot help with that'') JNull
      ''OpenAI could not reconstruct the prompt: I cannot help with that''))"
proof -
  have r: "reconstructPromptFromImage (\<lambda>imageBuffer mimeType. Inr (Some ''I cannot help with that''))
             (file_buffer example_file) (mimetype example_file) =
           Inr \<lparr>prompt = ''I cannot help with that'', isPromptGenerated = False\<rparr>"
    by code_simp
  have "step1 (example_world (Inr (Some ''I cannot help with that'')) (Inl ''unused'') (Inl (new_Error ''boom'')))
          example_file (example_upload 0) [] =
        Inl (shortCircuit (example_upload 0) [] (JString ''I cannot help with that'') JNull
          ''OpenAI could not reconstruct the prompt: I cannot help with that'')"
    by (simp add: step1_def example_world_def r orElse_def)
  then show ?thesis
    by (simp add: imageFlow_handler_def example_validateRequest example_uploadInputs
          example_createOpenAIService pipeline_def)
qed


text \<open>
  A Stage 2 reply \<open>{"prompt": 5, "isPromptGenerated": false}\<close> parses, does not have the
  expected structure, and is passed on as it is: the 502 body carries \<open>prompt2: 5\<close>.
\<close>

lemma example_numeric_prompt2:
  "step2 ((example_world (Inr (Some ''a red cup on a table'')) (Inr (Some ''{x}'')) (Inl (new_Error ''boom'')))
            \<lparr>JSON_parse := (\<lambda>block. Some \<lparr>parsed_prompt = Some (JSNum 5),
                                            parsed_isPromptGenerated = Some (JSBool False)\<rparr>)\<rparr>)
     \<lparr>payload_userPrompt = Some ''add a knife'', payload_aspectRatio = None\<rparr> []
     (example_upload 0) [] ''a red cup on a table'' =
   ([CallApplyInstructions],
    Inl (shortCircuit (example_upload 0) [] (JString ''a red cup on a table'') (JNumber 5)
           ''OpenAI could not generate the prompt: 5''))"
proof -
  have t: "trim ''add a knife'' = ''add a knife''" by code_simp
  have j: "jsonMatch ''{x}'' = Some ''{x}''" by code_simp
  have n: "show_int 5 = ''5''" by code_simp
  show ?thesis
    by (simp add: step2_def t orElse_def applyUserInstructions_def chatCompletionsJSON_def
          chatCompletions_def example_world_def j truthy_def logicalOr_def json_of_def
          String_of_def n)
qed



lemma continueFromStep2_prompt1:
  assumes "snd (continueFromStep2 cfg w refs pl bu rus p1) = Responded r"
  shows "map_of (body r) ''prompt1'' = Some (JString p1)"
proof -
  obtain cs out where c: "continueFromStep2 cfg w refs pl bu rus p1 = (cs, out)"
    by (cases "continueFromStep2 cfg w refs pl bu rus p1")
  with assms have "out = Responded r" by simp
  with continueFromStep2_cases [OF c] show ?thesis
    by (auto simp add: shortCircuit_def successResponse_def)
qed

text \<open>
  C4. Let a request reach Stage 1 and let the reconstruction return an outcome. If the
  outcome has \<open>generated = false\<close>, the handler stops there and answers 502 with \<open>prompt1\<close>
  the outcome's prompt text, \<open>prompt2 = null\<close>, \<open>outputImage = null\<close> and a non-empty
  \<open>error\<close>. If it has \<open>generated = true\<close> and its trimmed prompt has fewer than 3
  characters, the handler stops there and answers 502 in the same shape, the \<open>error\<close>
  saying that no valid reconstructed prompt was returned. Otherwise \<open>prompt1\<close> is the
  trimmed prompt: the handler goes on to Stages 2 and 3 with it, makes at least one more
  call, and every response it then gives carries it as \<open>prompt1\<close>.
\<close>

theorem stage1_outcome_handling:
  "validateRequest req = Inr (b, refs, pl) \<and>
   uploadInputs w b refs = (cs, Inr (bu, rus)) \<and>
   createOpenAIService cfg = Inr k \<and>
   reconstructPromptFromImage (openai_reconstruct w) (file_buffer b) (mimetype b) = Inr out \<longrightarrow>
     (\<not> isPromptGenerated out \<longrightarrow>
        imageFlow_handler cfg w req =
          (cs @ [CallReconstruct],
           Responded
             \<lparr>statusCode = 502,
              body = [(''baseImage'', JString (upload_url bu)),
                      (''referenceImages'', JStrings (map upload_url rus)),
                      (''prompt1'', JString (prompt out)),
                      (''prompt2'', JNull),
                      (''outputImage'', JNull),
                      (''error'', JString (''OpenAI could not reconstruct the prompt: '' @ prompt out)),
                      (''isPromptGenerated'', JBool False)]\<rparr>)) \<and>
     (isPromptGenerated out \<and> length (trim (prompt out)) < 3 \<longrightarrow>
        imageFlow_handler cfg w req =
          (cs @ [CallReconstruct],
           Responded
             \<lparr>statusCode = 502,
              body = [(''baseImage'', JString (upload_url bu)),
                      (''referenceImages'', JStrings (map upload_url rus)),
                      (''prompt1'', JString (orElse (trim (prompt out)) ''Invalid prompt'')),
                      (''prompt2'', JNull),
                      (''outputImage'', JNull),
                      (''error'', JString ''OpenAI did not return a valid reconstructed prompt. Please try again with a different image.''),
                      (''isPromptGenerated'', JBool False)]\<rparr>)) \<and>
     (isPromptGenerated out \<and> 3 \<le> length (trim (prompt out)) \<longrightarrow>
        imageFlow_handler cfg w req =
          (cs @ CallReconstruct # fst (continueFromStep2 cfg w refs pl bu rus (trim (prompt out))),
           snd (continueFromStep2 cfg w refs pl bu rus (trim (prompt out)))) \<and>
        fst (continueFromStep2 cfg w refs pl bu rus (trim (prompt out))) \<noteq> [] \<and>
        (\<forall>r. snd (imageFlow_handler cfg w req) = Responded r \<longrightarrow>
             map_of (body r) ''prompt1'' = Some (JString (trim (prompt out)))))"
proof
  assume h: "validateRequest req = Inr (b, refs, pl) \<and>
   uploadInputs w b refs = (cs, Inr (bu, rus)) \<and>
   createOpenAIService cfg = Inr k \<and>
   reconstructPromptFromImage (openai_reconstruct w) (file_buffer b) (mimetype b) = Inr out"
  then have hd: "imageFlow_handler cfg w req =
           (cs @ fst (pipeline cfg w b refs pl bu rus), snd (pipeline cfg w b refs pl bu rus))"
    using imageFlow_handler_reached [of req b refs pl w cs bu rus cfg k] by simp
  from h have s1: "step1 w b bu rus =
     (if \<not> isPromptGenerated out
      then Inl (shortCircuit bu rus (JString (prompt out)) JNull
                  (''OpenAI could not reconstruct the prompt: '' @ prompt out))
      else if length (trim (prompt out)) < 3
      then Inl (shortCircuit bu rus (JString (orElse (trim (prompt out)) ''Invalid prompt'')) JNull
                  ''OpenAI did not return a valid reconstructed prompt. Please try again with a different image.'')
      else Inr (trim (prompt out)))"
    using step1_of_outcome [of w b out bu rus] by simp
  have a: "\<not> isPromptGenerated out \<longrightarrow>
        imageFlow_handler cfg w req =
          (cs @ [CallReconstruct],
           Responded
             \<lparr>statusCode = 502,
              body = [(''baseImage'', JString (upload_url bu)),
                      (''referenceImages'', JStrings (map upload_url rus)),
                      (''prompt1'', JString (prompt out)),
                      (''prompt2'', JNull),
                      (''outputImage'', JNull),
                      (''error'', JString (''OpenAI could not reconstruct the prompt: '' @ prompt out)),
                      (''isPromptGenerated'', JBool False)]\<rparr>)"
    by (simp add: hd pipeline_def s1 shortCircuit_def)
  have b: "isPromptGenerated out \<and> length (trim (prompt out)) < 3 \<longrightarrow>
        imageFlow_handler cfg w req =
          (cs @ [CallReconstruct],
           Responded
             \<lparr>statusCode = 502,
              body = [(''baseImage'', JString (upload_url bu)),
                      (''referenceImages'', JStrings (map upload_url rus)),
                      (''prompt1'', JString (orElse (trim (prompt out)) ''Invalid prompt'')),
                      (''prompt2'', JNull),
                      (''outputImage'', JNull),
                      (''error'', JString ''OpenAI did not return a valid reconstructed prompt. Please try again with a different image.''),
                      (''isPromptGenerated'', JBool False)]\<rparr>)"
    by (simp add: hd pipeline_def s1 shortCircuit_def)
  have c: "isPromptGenerated out \<and> 3 \<le> length (trim (prompt out)) \<longrightarrow>
        imageFlow_handler cfg w req =
          (cs @ CallReconstruct # fst (continueFromStep2 cfg w refs pl bu rus (trim (prompt out))),
           snd (continueFromStep2 cfg w refs pl bu rus (trim (prompt out)))) \<and>
        fst (continueFromStep2 cfg w refs pl bu rus (trim (prompt out))) \<noteq> [] \<and>
        (\<forall>r. snd (imageFlow_handler cfg w req) = Responded r \<longrightarrow>
             map_of (body r) ''prompt1'' = Some (JString (trim (prompt out))))"
  proof
    assume g: "isPromptGenerated out \<and> 3 \<le> length (trim (prompt out))"
    then have e: "imageFlow_handler cfg w req =
          (cs @ CallReconstruct # fst (continueFromStep2 cfg w refs pl bu rus (trim (prompt out))),
           snd (continueFromStep2 cfg w refs pl bu rus (trim (prompt out))))"
      by (simp add: hd pipeline_def s1 split: prod.splits)
    then show "imageFlow_handler cfg w req =
          (cs @ CallReconstruct # fst (continueFromStep2 cfg w refs pl bu rus (trim (prompt out))),
           snd (continueFromStep2 cfg w refs pl bu rus (trim (prompt out)))) \<and>
        fst (continueFromStep2 cfg w refs pl bu rus (trim (prompt out))) \<noteq> [] \<and>
        (\<forall>r. snd (imageFlow_handler cfg w req) = Responded r \<longrightarrow>
             map_of (body r) ''prompt1'' = Some (JString (trim (prompt out))))"
      using continueFromStep2_nonempty [of cfg w refs pl bu rus "trim (prompt out)"]
        continueFromStep2_prompt1 [of cfg w refs pl bu rus "trim (prompt out)"]
      by simp
  qed
  from a b c show "(\<not> isPromptGenerated out \<longrightarrow>
        imageFlow_handler cfg w req =
          (cs @ [CallReconstruct],
           Responded
             \<lparr>statusCode = 502,
              body = [(''baseImage'', JString (upload_url bu)),
                      (''referenceImages'', JStrings (map upload_url rus)),
                      (''prompt1'', JString (prompt out)),
                      (''prompt2'', JNull),
                      (''outputImage'', JNull),
                      (''error'', JString (''OpenAI could not reconstruct the prompt: '' @ prompt out)),
                      (''isPromptGenerated'', JBool False)]\<rparr>)) \<and>
     (isPromptGenerated out \<and> length (trim (prompt out)) < 3 \<longrightarrow>
        imageFlow_handler cfg w req =
          (cs @ [CallReconstruct],
           Responded
             \<lparr>statusCode = 502,
              body = [(''baseImage'', JString (upload_url bu)),
                      (''referenceImages'', JStrings (map upload_url rus)),
                      (''prompt1'', JString (orElse (trim (prompt out)) ''Invalid prompt'')),
                      (''prompt2'', JNull),
                      (''outputImage'', JNull),
                      (''error'', JString ''OpenAI did not return a valid reconstructed prompt. Please try again with a different image.''),
                      (''isPromptGenerated'', JBool False)]\<rparr>)) \<and>
     (isPromptGenerated out \<and> 3 \<le> length (trim (prompt out)) \<longrightarrow>
        imageFlow_handler cfg w req =
          (cs @ CallReconstruct # fst (continueFromStep2 cfg w refs pl bu rus (trim (prompt out))),
           snd (continueFromStep2 cfg w refs pl bu rus (trim (prompt out)))) \<and>
        fst (continueFromStep2 cfg w refs pl bu rus (trim (prompt out))) \<noteq> [] \<and>
        (\<forall>r. snd (imageFlow_handler cfg w req) = Responded r \<longrightarrow>
             map_of (body r) ''prompt1'' = Some (JString (trim (prompt out)))))"
    by (intro conjI)
qed

lemma example_reconstruct_refusal:
  "reconstructPromptFromImage (\<lambda>imageBuffer mimeType. Inr (Some ''I cannot help with that''))
     (file_buffer example_file) (mimetype example_file) =
   Inr \<lparr>prompt = ''I cannot help with that'', isPromptGenerated = False\<rparr>"
  by code_simp

lemma example_reconstruct_prompt:
  "reconstructPromptFromImage (\<lambda>imageBuffer mimeType. Inr (Some ''a red cup on a table''))
     (file_buffer example_file) (mimetype example_file) =
   Inr \<lparr>prompt = ''a red cup on a table'', isPromptGenerated = True\<rparr>"
  by code_simp

lemma example_trim: "trim ''a red cup on a table'' = ''a red cup on a table''"
  by code_simp

lemma example_openai_reconstruct: "openai_reconstruct (example_world r1 r2 v) = (\<lambda>imageBuffer mimeType. r1)"
  by (simp add: example_world_def)

theorem stage1_outcome_handling_witness:
  "imageFlow_handler example_config
     (example_world (Inr (Some ''I cannot help with that'')) (Inl ''unused'') (Inl (new_Error ''boom'')))
     (example_request Missing) =
   ([CallUploadBase, CallReconstruct],
    Responded
      \<lparr>statusCode = 502,
       body = [(''baseImage'', JString (upload_url (example_upload 0))),
               (''referenceImages'', JStrings []),
               (''prompt1'', JString ''I cannot help with that''),
               (''prompt2'', JNull),
               (''outputImage'', JNull),
               (''error'', JString ''OpenAI could not reconstruct the prompt: I cannot help with that''),
               (''isPromptGenerated'', JBool False)]\<rparr>) \<and>
   fst (imageFlow_handler example_config
     (example_world (Inr (Some ''a red cup on a table'')) (Inl ''unused'') (Inl (new_Error ''boom'')))
     (example_request Missing)) =
   CallUploadBase # CallReconstruct #
     fst (continueFromStep2 example_config
       (example_world (Inr (Some ''a red cup on a table'')) (Inl ''unused'') (Inl (new_Error ''boom'')))
       [] \<lparr>payload_userPrompt = None, payload_aspectRatio = Some ''1:1''\<rparr> (example_upload 0) []
       ''a red cup on a table'')"
  using stage1_outcome_handling
          [where req = "example_request Missing" and b = example_file and refs = "[]"
             and pl = "\<lparr>payload_userPrompt = None, payload_aspectRatio = Some ''1:1''\<rparr>"
             and w = "example_world (Inr (Some ''I cannot help with that'')) (Inl ''unused'') (Inl (new_Error ''boom''))"
             and cs = "[CallUploadBase]" and bu = "example_upload 0" and rus = "[]"
             and cfg = example_config and k = "''sk-test''"
             and out = "\<lparr>prompt = ''I cannot help with that'', isPromptGenerated = False\<rparr>"]
        stage1_outcome_handling
          [where req = "example_request Missing" and b = example_file and refs = "[]"
             and pl = "\<lparr>payload_userPrompt = None, payload_aspectRatio = Some ''1:1''\<rparr>"
             and w = "example_world (Inr (Some ''a red cup on a table'')) (Inl ''unused'') (Inl (new_Error ''boom''))"
             and cs = "[CallUploadBase]" and bu = "example_upload 0" and rus = "[]"
             and cfg = example_config and k = "''sk-test''"
             and out = "\<lparr>prompt = ''a red cup on a table'', isPromptGenerated = True\<rparr>"]
  by (simp add: example_validateRequest example_uploadInputs example_createOpenAIService
        example_openai_reconstruct example_reconstruct_refusal example_reconstruct_prompt
        example_trim)




text \<open>Every response of the route is of one of three kinds.\<close>

lemma imageFlowRouter_cases:
  "(CallVertex \<notin> set (fst (imageFlow_handler cfg w req)) \<and>
    CallApplyInstructions \<notin> set (fst (imageFlow_handler cfg w req)) \<and>
    (statusCode (imageFlowRouter cfg w req) = 400 \<or> statusCode (imageFlowRouter cfg w req) = 500) \<and>
    (\<exists>m. body (imageFlowRouter cfg w req) = [(''message'', JString m)] \<or>
         body (imageFlowRouter cfg w req) = [(''message'', JString m), (''issues'', JIssues)])) \<or>
   (CallVertex \<in> set (fst (imageFlow_handler cfg w req)) \<and>
    statusCode (imageFlowRouter cfg w req) = 500 \<and>
    (\<exists>m. body (imageFlowRouter cfg w req) = [(''message'', JString m)])) \<or>
   (CallVertex \<notin> set (fst (imageFlow_handler cfg w req)) \<and>
    CallUploadOutput \<notin> set (fst (imageFlow_handler cfg w req)) \<and>
    (\<exists>bu rus p1 p2 e. imageFlowRouter cfg w req = shortCircuit bu rus p1 p2 e)) \<or>
   (CallVertex \<in> set (fst (imageFlow_handler cfg w req)) \<and>
    CallUploadOutput \<in> set (fst (imageFlow_handler cfg w req)) \<and>
    (\<exists>bu rus p1 p2 ou ex pl buf.
       imageFlowRouter cfg w req = successResponse bu rus p1 p2 ou ex \<and>
       storage_uploadBuffer w (Suc (length (files_referenceImages req))) = Inr ou \<and>
       (ex \<longleftrightarrow> CallApplyInstructions \<in> set (fst (imageFlow_handler cfg w req))) \<and>
       (\<not> ex \<longrightarrow> p2 = p1) \<and>
       imageFlowSchema_parse (body_userPrompt req) (body_aspectRatio req) = Inr pl \<and>
       snd (geminiService_generateImage cfg w p2 \<lparr>aspectRatio = payload_aspectRatio pl\<rparr>) = Inr buf))"
proof -
  obtain calls out where ho: "imageFlow_handler cfg w req = (calls, out)"
    by (cases "imageFlow_handler cfg w req")
  from imageFlow_handler_cases [OF ho]
  consider
      (early) "CallReconstruct \<notin> set calls" "CallVertex \<notin> set calls"
        "CallApplyInstructions \<notin> set calls"
        "\<exists>e. out = Threw e \<and> (e = ZodError \<or> (\<exists>m. e = HttpError 400 m) \<or> (\<exists>t. e = Thrown t))"
    | (reached) b refs pl cs bu rus cs' where
        "validateRequest req = Inr (b, refs, pl)" "uploadInputs w b refs = (cs, Inr (bu, rus))"
        "pipeline cfg w b refs pl bu rus = (cs', out)" "calls = cs @ cs'"
    by blast
  then show ?thesis
  proof cases
    case early
    then obtain e where e: "out = Threw e"
        "e = ZodError \<or> (\<exists>m. e = HttpError 400 m) \<or> (\<exists>t. e = Thrown t)"
      by blast
    with ho have
      "(statusCode (imageFlowRouter cfg w req) = 400 \<or> statusCode (imageFlowRouter cfg w req) = 500) \<and>
       (\<exists>m. body (imageFlowRouter cfg w req) = [(''message'', JString m)] \<or>
            body (imageFlowRouter cfg w req) = [(''message'', JString m), (''issues'', JIssues)])"
      by (auto simp add: imageFlowRouter_def asyncHandler_def errorHandler_def)
    moreover from early ho have
      "CallVertex \<notin> set (fst (imageFlow_handler cfg w req)) \<and>
       CallApplyInstructions \<notin> set (fst (imageFlow_handler cfg w req))"
      by simp
    ultimately show ?thesis by blast
  next
    case reached
    note uc = uploadInputs_calls [OF reached(2)]
    from validateRequest_Inr [OF reached(1)] have rf: "refs = files_referenceImages req"
      and sp: "imageFlowSchema_parse (body_userPrompt req) (body_aspectRatio req) = Inr pl"
      by simp_all
    from pipeline_cases [OF reached(3)]
    consider
        (short) "CallVertex \<notin> set cs'" "CallUploadOutput \<notin> set cs'"
          "\<exists>p1 p2 e. out = Responded (shortCircuit bu rus p1 p2 e)"
      | (threw) "CallVertex \<in> set cs'" "\<exists>t. out = Threw (Thrown t)"
      | (complete) "CallVertex \<in> set cs'" "CallUploadOutput \<in> set cs'"
          "\<exists>p1 p2 ou ex buf. out = Responded (successResponse bu rus p1 p2 ou ex) \<and>
             storage_uploadBuffer w (Suc (length refs)) = Inr ou \<and>
             (ex \<longleftrightarrow> CallApplyInstructions \<in> set cs') \<and> (\<not> ex \<longrightarrow> p2 = p1) \<and>
             snd (geminiService_generateImage cfg w p2 \<lparr>aspectRatio = payload_aspectRatio pl\<rparr>) = Inr buf"
      by blast
    then show ?thesis
    proof cases
      case short
      then obtain p1 p2 e where "out = Responded (shortCircuit bu rus p1 p2 e)"
        by blast
      with ho have "imageFlowRouter cfg w req = shortCircuit bu rus p1 p2 e"
        by (simp add: imageFlowRouter_def asyncHandler_def)
      then have "\<exists>bu rus p1 p2 e. imageFlowRouter cfg w req = shortCircuit bu rus p1 p2 e"
        by blast
      moreover from short ho reached(4) uc have
        "CallVertex \<notin> set (fst (imageFlow_handler cfg w req)) \<and>
         CallUploadOutput \<notin> set (fst (imageFlow_handler cfg w req))"
        by simp
      ultimately show ?thesis by blast
    next
      case threw
      then obtain t where "out = Threw (Thrown t)"
        by blast
      with ho have "statusCode (imageFlowRouter cfg w req) = 500 \<and>
          (\<exists>m. body (imageFlowRouter cfg w req) = [(''message'', JString m)])"
        by (simp add: imageFlowRouter_def asyncHandler_def errorHandler_def)
      moreover from threw ho reached(4) have
        "CallVertex \<in> set (fst (imageFlow_handler cfg w req))"
        by simp
      ultimately show ?thesis by blast
    next
      case complete
      then obtain p1 p2 ou ex buf where
          o: "out = Responded (successResponse bu rus p1 p2 ou ex)"
             "storage_uploadBuffer w (Suc (length refs)) = Inr ou"
             "ex \<longleftrightarrow> CallApplyInstructions \<in> set cs'" "\<not> ex \<longrightarrow> p2 = p1"
             "snd (geminiService_generateImage cfg w p2 \<lparr>aspectRatio = payload_aspectRatio pl\<rparr>) = Inr buf"
        by blast
      from o uc reached(4) ho rf sp have
        "imageFlowRouter cfg w req = successResponse bu rus p1 p2 ou ex \<and>
         storage_uploadBuffer w (Suc (length (files_referenceImages req))) = Inr ou \<and>
         (ex \<longleftrightarrow> CallApplyInstructions \<in> set (fst (imageFlow_handler cfg w req))) \<and>
         (\<not> ex \<longrightarrow> p2 = p1) \<and>
         imageFlowSchema_parse (body_userPrompt req) (body_aspectRatio req) = Inr pl \<and>
         snd (geminiService_generateImage cfg w p2 \<lparr>aspectRatio = payload_aspectRatio pl\<rparr>) = Inr buf"
        by (simp add: imageFlowRouter_def asyncHandler_def)
      then have "\<exists>bu rus p1 p2 ou ex pl buf.
         imageFlowRouter cfg w req = successResponse bu rus p1 p2 ou ex \<and>
         storage_uploadBuffer w (Suc (length (files_referenceImages req))) = Inr ou \<and>
         (ex \<longleftrightarrow> CallApplyInstructions \<in> set (fst (imageFlow_handler cfg w req))) \<and>
         (\<not> ex \<longrightarrow> p2 = p1) \<and>
         imageFlowSchema_parse (body_userPrompt req) (body_aspectRatio req) = Inr pl \<and>
         snd (geminiService_generateImage cfg w p2 \<lparr>aspectRatio = payload_aspectRatio pl\<rparr>) = Inr buf"
        by blast
      moreover from complete ho reached(4) have
        "CallVertex \<in> set (fst (imageFlow_handler cfg w req)) \<and>
         CallUploadOutput \<in> set (fst (imageFlow_handler cfg w req))"
        by simp
      ultimately show ?thesis by blast
    qed
  qed
qed



text \<open>
  C6. Every response of the pipeline with \<open>isPromptGenerated: false\<close> has
  \<open>outputImage: null\<close> and carries no \<open>outputImageKey\<close> (the field is absent from the
  body). A response with an \<open>outputImage\<close> other than null is a 200 response with
  \<open>isPromptGenerated: true\<close>, given after the synthesis stage ran to completion: the
  synthesis client, called with the \<open>prompt2\<close> of the response and the aspect ratio of
  the request, returned an image, the output upload was made and succeeded, and
  \<open>outputImage\<close> and \<open>outputImageKey\<close> are the URL and key of that upload.
\<close>

theorem output_image_only_after_synthesis:
  "(map_of (body (imageFlowRouter cfg w req)) ''isPromptGenerated'' = Some (JBool False) \<longrightarrow>
      map_of (body (imageFlowRouter cfg w req)) ''outputImage'' = Some JNull \<and>
      map_of (body (imageFlowRouter cfg w req)) ''outputImageKey'' = None) \<and>
   (map_of (body (imageFlowRouter cfg w req)) ''outputImage'' = Some x \<and> x \<noteq> JNull \<longrightarrow>
      statusCode (imageFlowRouter cfg w req) = 200 \<and>
      map_of (body (imageFlowRouter cfg w req)) ''isPromptGenerated'' = Some (JBool True) \<and>
      CallVertex \<in> set (fst (imageFlow_handler cfg w req)) \<and>
      CallUploadOutput \<in> set (fst (imageFlow_handler cfg w req)) \<and>
      (\<exists>ou. storage_uploadBuffer w (Suc (length (files_referenceImages req))) = Inr ou \<and>
            x = JString (upload_url ou) \<and>
            map_of (body (imageFlowRouter cfg w req)) ''outputImageKey'' =
              Some (JString (upload_key ou))) \<and>
      (\<exists>p2 pl buf.
            map_of (body (imageFlowRouter cfg w req)) ''prompt2'' = Some (JString p2) \<and>
            imageFlowSchema_parse (body_userPrompt req) (body_aspectRatio req) = Inr pl \<and>
            snd (geminiService_generateImage cfg w p2
                   \<lparr>aspectRatio = payload_aspectRatio pl\<rparr>) = Inr buf))"
proof -
  note rc = imageFlowRouter_cases [of cfg w req]
  have a: "map_of (body (imageFlowRouter cfg w req)) ''isPromptGenerated'' = Some (JBool False) \<longrightarrow>
      map_of (body (imageFlowRouter cfg w req)) ''outputImage'' = Some JNull \<and>
      map_of (body (imageFlowRouter cfg w req)) ''outputImageKey'' = None"
    using rc by (auto simp add: shortCircuit_def successResponse_def)
  have b: "map_of (body (imageFlowRouter cfg w req)) ''outputImage'' = Some x \<and> x \<noteq> JNull \<longrightarrow>
      statusCode (imageFlowRouter cfg w req) = 200 \<and>
      map_of (body (imageFlowRouter cfg w req)) ''isPromptGenerated'' = Some (JBool True) \<and>
      CallVertex \<in> set (fst (imageFlow_handler cfg w req)) \<and>
      CallUploadOutput \<in> set (fst (imageFlow_handler cfg w req)) \<and>
      (\<exists>ou. storage_uploadBuffer w (Suc (length (files_referenceImages req))) = Inr ou \<and>
            x = JString (upload_url ou) \<and>
            map_of (body (imageFlowRouter cfg w req)) ''outputImageKey'' =
              Some (JString (upload_key ou))) \<and>
      (\<exists>p2 pl buf.
            map_of (body (imageFlowRouter cfg w req)) ''prompt2'' = Some (JString p2) \<and>
            imageFlowSchema_parse (body_userPrompt req) (body_aspectRatio req) = Inr pl \<and>
            snd (geminiService_generateImage cfg w p2
                   \<lparr>aspectRatio = payload_aspectRatio pl\<rparr>) = Inr buf)"
    using rc by (auto simp add: shortCircuit_def successResponse_def)
  from a b show ?thesis by (intro conjI)
qed


section \<open>The properties on the example inputs\<close>

lemma example_startup:
  "startup example_env example_fs = Listening (example_config\<lparr>openai_apiKey := None\<rparr>)"
  by (simp add: startup_def loadConfig_def bindE_def required_def resolveCredentialPath_def
        nullish_def ensureValidAspectRatio_def DEFAULT_ASPECT_RATIO_def example_env_def
        example_fs_def example_config_def FAL_DEFAULT_ENDPOINT_def FAL_DEFAULT_MODEL_ID_def)

lemma example_env_no_keys: "example_env ''OPENAI_API_KEY'' = None" "example_env ''FAL_API_KEY'' = None"
  by (simp_all add: example_env_def)

theorem api_keys_checked_lazily_witness:
  "imageFlow_handler (example_config\<lparr>openai_apiKey := None\<rparr>)
     (example_world (Inr (Some ''a red cup on a table'')) (Inl ''unused'') (Inl (new_Error ''boom'')))
     (example_request Missing) =
   ([CallUploadBase],
    Threw (Thrown (new_Error ''OpenAI API key is required. Set OPENAI_API_KEY environment variable.''))) \<and>
   statusCode (imageFlowRouter (example_config\<lparr>openai_apiKey := None\<rparr>)
     (example_world (Inr (Some ''a red cup on a table'')) (Inl ''unused'') (Inl (new_Error ''boom'')))
     (example_request Missing)) = 500 \<and>
   FalImageService_generateImage (fal_apiKey (example_config\<lparr>openai_apiKey := None\<rparr>))
     (\<lambda>p opts. Inr (Bytes [1, 2])) ''a red cup'' \<lparr>aspectRatio = Some ''1:1''\<rparr> =
   Inl (new_Error ''FAL_API_KEY must be configured to use fal.ai as a fallback provider.'')"
  using api_keys_checked_lazily
          [where env = example_env and fs = example_fs
             and cfg = "example_config\<lparr>openai_apiKey := None\<rparr>"
             and req = "example_request Missing" and b = example_file and refs = "[]"
             and pl = "\<lparr>payload_userPrompt = None, payload_aspectRatio = Some ''1:1''\<rparr>"
             and w = "example_world (Inr (Some ''a red cup on a table'')) (Inl ''unused'') (Inl (new_Error ''boom''))"
             and cs = "[CallUploadBase]" and ups = "(example_upload 0, [])"
             and http = "\<lambda>p opts. Inr (Bytes [1, 2])" and p = "''a red cup''"
             and opts = "\<lparr>aspectRatio = Some ''1:1''\<rparr>"]
  by (simp add: example_startup example_env_no_keys example_validateRequest example_uploadInputs)

lemma example_step1_prompt:
  "step1 (example_world (Inr (Some ''a red cup on a table'')) r2 v) example_file bu rus =
     Inr ''a red cup on a table''"
  using step1_of_outcome
          [of "example_world (Inr (Some ''a red cup on a table'')) r2 v" example_file
              "\<lparr>prompt = ''a red cup on a table'', isPromptGenerated = True\<rparr>" bu rus]
  by (simp add: example_openai_reconstruct example_reconstruct_prompt example_trim)

lemma example_step3_success:
  "step3 example_config (example_world r1 r2 (Inr (Some ''aGVsbG8=''))) pl 0 p2 =
     ([CallVertex, CallUploadOutput], Inr (example_upload 1))"
  by (simp add: step3_def geminiService_generateImage_def generateImage_def
        generateWithVertex_def example_world_def)

lemma example_success_handler:
  "imageFlow_handler example_config
     (example_world (Inr (Some ''a red cup on a table'')) (Inl ''unused'') (Inr (Some ''aGVsbG8='')))
     (example_request Missing) =
   ([CallUploadBase, CallReconstruct, CallVertex, CallUploadOutput],
    Responded (successResponse (example_upload 0) [] ''a red cup on a table''
                 ''a red cup on a table'' (example_upload 1) False))"
proof -
  have s2: "step2 (example_world (Inr (Some ''a red cup on a table'')) (Inl ''unused'') (Inr (Some ''aGVsbG8='')))
          \<lparr>payload_userPrompt = None, payload_aspectRatio = Some ''1:1''\<rparr> []
          (example_upload 0) [] ''a red cup on a table'' = ([], Inr (''a red cup on a table'', False))"
    by (simp add: step2_def orElse_def)
  show ?thesis
    by (simp add: imageFlow_handler_def example_validateRequest example_uploadInputs
          example_createOpenAIService pipeline_def example_step1_prompt continueFromStep2_def s2
          example_step3_success)
qed



theorem output_image_only_after_synthesis_witness:
  "map_of (body (imageFlowRouter example_config
     (example_world (Inr (Some ''I cannot help with that'')) (Inl ''unused'') (Inl (new_Error ''boom'')))
     (example_request Missing))) ''isPromptGenerated'' = Some (JBool False) \<and>
   map_of (body (imageFlowRouter example_config
     (example_world (Inr (Some ''I cannot help with that'')) (Inl ''unused'') (Inl (new_Error ''boom'')))
     (example_request Missing))) ''outputImage'' = Some JNull \<and>
   map_of (body (imageFlowRouter example_config
     (example_world (Inr (Some ''I cannot help with that'')) (Inl ''unused'') (Inl (new_Error ''boom'')))
     (example_request Missing))) ''outputImageKey'' = None \<and>
   map_of (body (imageFlowRouter example_config
     (example_world (Inr (Some ''a red cup on a table'')) (Inl ''unused'') (Inr (Some ''aGVsbG8='')))
     (example_request Missing))) ''outputImage'' = Some (JString (upload_url (example_upload 1))) \<and>
   statusCode (imageFlowRouter example_config
     (example_world (Inr (Some ''a red cup on a table'')) (Inl ''unused'') (Inr (Some ''aGVsbG8='')))
     (example_request Missing)) = 200 \<and>
   CallUploadOutput \<in> set (fst (imageFlow_handler example_config
     (example_world (Inr (Some ''a red cup on a table'')) (Inl ''unused'') (Inr (Some ''aGVsbG8='')))
     (example_request Missing)))"
  using output_image_only_after_synthesis
          [where cfg = example_config
             and w = "example_world (Inr (Some ''I cannot help with that'')) (Inl ''unused'') (Inl (new_Error ''boom''))"
             and req = "example_request Missing"]
        output_image_only_after_synthesis
          [where cfg = example_config
             and w = "example_world (Inr (Some ''a red cup on a table'')) (Inl ''unused'') (Inr (Some ''aGVsbG8=''))"
             and req = "example_request Missing"
             and x = "JString (upload_url (example_upload 1))"]
  by (simp add: example_success_handler example_refusal_handler imageFlowRouter_def
        asyncHandler_def successResponse_def shortCircuit_def)

end
